theory Spec2Isabelle
  imports Main "HOL-Library.AList"
begin

section \<open>JavaScript strings\<close>

text \<open>
  Strings are lists of bytes. The source's string methods are modelled on ASCII text:
  \<^verbatim>\<open>toLowerCase\<close> maps the letters \<^verbatim>\<open>A\<close> to \<^verbatim>\<open>Z\<close>, and the white space of
  \<^verbatim>\<open>trim\<close> and of the class \<^verbatim>\<open>\s\<close> is tab, line feed, vertical tab, form feed, carriage
  return and space. The digits of \<^verbatim>\<open>\d\<close> are \<^verbatim>\<open>0\<close> to \<^verbatim>\<open>9\<close>, as in JavaScript.
\<close>

definition is_space :: "char \<Rightarrow> bool" where
  "is_space c = (c \<in> set [CHR 0x09, CHR 0x0A, CHR 0x0B, CHR 0x0C, CHR 0x0D, CHR '' ''])"

definition is_digit :: "char \<Rightarrow> bool" where
  "is_digit c = (c \<in> set ''0123456789'')"

definition lower_char :: "char \<Rightarrow> char" where
  "lower_char c =
     (case map_of (zip ''ABCDEFGHIJKLMNOPQRSTUVWXYZ'' ''abcdefghijklmnopqrstuvwxyz'') c of
        Some d \<Rightarrow> d
      | None \<Rightarrow> c)"

definition toLowerCase :: "string \<Rightarrow> string" where
  "toLowerCase s = map lower_char s"

definition trim :: "string \<Rightarrow> string" where
  "trim s = rev (dropWhile is_space (rev (dropWhile is_space s)))"

fun startsWith :: "string \<Rightarrow> string \<Rightarrow> bool" where
  "startsWith s [] = True"
| "startsWith [] (k # ks) = False"
| "startsWith (c # s) (k # ks) = (c = k \<and> startsWith s ks)"

text \<open>\<^verbatim>\<open>s.includes(k)\<close>: \<open>k\<close> occurs in \<open>s\<close> as a contiguous substring.\<close>

fun str_includes :: "string \<Rightarrow> string \<Rightarrow> bool" where
  "str_includes [] k = (k = [])"
| "str_includes (c # s) k = (startsWith (c # s) k \<or> str_includes s k)"

text \<open>\<^verbatim>\<open>xs.join(sep)\<close>\<close>

fun join :: "string \<Rightarrow> string list \<Rightarrow> string" where
  "join sep [] = []"
| "join sep [x] = x"
| "join sep (x # y # ys) = x @ sep @ join sep (y # ys)"

text \<open>The rupee sign U+20B9 of the source's string literals, in UTF-8.\<close>

definition rupee_sign :: string where
  "rupee_sign = [CHR 0xE2, CHR 0x82, CHR 0xB9]"

subsection \<open>Regular expressions\<close>

text \<open>
  The validators' regular expressions are anchored (\<^verbatim>\<open>^...$\<close>, no flags) sequences of
  character classes, each repeated a fixed number of times or with \<^verbatim>\<open>+\<close>.
  \<open>regex_test\<close> is \<^verbatim>\<open>RegExp.prototype.test\<close> on that fragment; the alternatives
  that backtracking explores under \<^verbatim>\<open>+\<close> are a disjunction.
\<close>

datatype quantifier = Exactly nat | OneOrMore

type_synonym regex = "((char \<Rightarrow> bool) \<times> quantifier) list"

fun regex_test :: "regex \<Rightarrow> string \<Rightarrow> bool" where
  "regex_test [] s = (s = [])"
| "regex_test ((p, Exactly 0) # r) s = regex_test r s"
| "regex_test ((p, Exactly (Suc n)) # r) [] = False"
| "regex_test ((p, Exactly (Suc n)) # r) (c # s) = (p c \<and> regex_test ((p, Exactly n) # r) s)"
| "regex_test ((p, OneOrMore) # r) [] = False"
| "regex_test ((p, OneOrMore) # r) (c # s) =
     (p c \<and> (regex_test r s \<or> regex_test ((p, OneOrMore) # r) s))"

definition lit :: "char \<Rightarrow> char \<Rightarrow> bool" where
  "lit a c = (c = a)"

text \<open>\<^verbatim>\<open>/^[^\s@]+@[^\s@]+\.[^\s@]+$/\<close>\<close>

definition not_space_at :: "char \<Rightarrow> bool" where
  "not_space_at c = (\<not> is_space c \<and> c \<noteq> CHR ''@'')"

definition emailRegex :: regex where
  "emailRegex =
     [(not_space_at, OneOrMore), (lit CHR ''@'', Exactly 1), (not_space_at, OneOrMore),
      (lit CHR ''.'', Exactly 1), (not_space_at, OneOrMore)]"

text \<open>\<^verbatim>\<open>/^[6-9]\d{9}$/\<close>\<close>

definition phoneRegex :: regex where
  "phoneRegex = [(\<lambda>c. c \<in> set ''6789'', Exactly 1), (is_digit, Exactly 9)]"

text \<open>\<^verbatim>\<open>/^\d{2}\/\d{2}\/\d{4}$/\<close>\<close>

definition dateRegex :: regex where
  "dateRegex =
     [(is_digit, Exactly 2), (lit CHR ''/'', Exactly 1), (is_digit, Exactly 2),
      (lit CHR ''/'', Exactly 1), (is_digit, Exactly 4)]"

text \<open>\<^verbatim>\<open>s.replace(/\D/g, '')\<close>\<close>

definition strip_non_digits :: "string \<Rightarrow> string" where
  "strip_non_digits s = filter is_digit s"

section \<open>Field definitions and the field validators\<close>

text \<open>
  A field object literal of either registry. A field with no \<^verbatim>\<open>required\<close> property has
  \<open>required = False\<close> (the source only tests \<^verbatim>\<open>!field.required\<close>), one with no
  \<^verbatim>\<open>options\<close> property has \<open>options = None\<close>.
\<close>

record field =
  name :: string
  question :: string
  type :: string
  options :: "string list option"
  required :: bool

datatype js_error = TypeError

text \<open>
  The result object of \<^verbatim>\<open>validateFieldInput\<close>; \<open>error = None\<close> is the source's
  \<^verbatim>\<open>null\<close> (and the absent property of the early return).
\<close>

record validation =
  valid :: bool
  "value" :: string
  error :: "string option"

text \<open>
  \<^verbatim>\<open>validateFieldInput\<close> of services/aiService.js. With \<^verbatim>\<open>field.options\<close> undefined
  the call \<^verbatim>\<open>field.options.some\<close> of the choice case throws.
\<close>

definition validChoice :: "string list \<Rightarrow> string \<Rightarrow> bool" where
  "validChoice opts userInput =
     list_ex (\<lambda>option. str_includes (toLowerCase userInput) (toLowerCase option) \<or>
                       str_includes (toLowerCase option) (toLowerCase userInput)) opts"

definition validateFieldInput :: "field \<Rightarrow> string \<Rightarrow> js_error + validation" where
  "validateFieldInput field userInput =
     (if \<not> required field \<and> trim userInput = []
      then Inr \<lparr>valid = True, value = userInput, error = None\<rparr>
      else if type field = ''email'' then
        Inr \<lparr>valid = regex_test emailRegex userInput, value = userInput,
             error = (if regex_test emailRegex userInput then None
                      else Some ''Please provide a valid email address (like name@example.com)'')\<rparr>
      else if type field = ''phone'' then
        (let cleanPhone = strip_non_digits userInput in
         Inr \<lparr>valid = regex_test phoneRegex cleanPhone, value = cleanPhone,
              error = (if regex_test phoneRegex cleanPhone then None
                       else Some ''Please provide a valid 10-digit Indian mobile number'')\<rparr>)
      else if type field = ''choice'' then
        (case options field of
           None \<Rightarrow> Inl TypeError
         | Some opts \<Rightarrow>
             Inr \<lparr>valid = validChoice opts userInput, value = userInput,
                  error = (if validChoice opts userInput then None
                           else Some (''Please choose from: '' @ join '', '' opts))\<rparr>)
      else
        Inr \<lparr>valid = trim userInput \<noteq> [], value = trim userInput,
             error = (if trim userInput \<noteq> [] then None else Some ''This field is required'')\<rparr>)"

text \<open>\<^verbatim>\<open>validateField\<close> of server.js: it returns a boolean only and has no choice case.\<close>

definition validateField :: "field \<Rightarrow> string \<Rightarrow> bool" where
  "validateField field v =
     (if \<not> required field \<and> trim v = [] then True
      else if type field = ''email'' then regex_test emailRegex v
      else if type field = ''phone'' then regex_test phoneRegex (strip_non_digits v)
      else if type field = ''date'' then regex_test dateRegex v
      else trim v \<noteq> [])"

section \<open>Form registry of the LangChain engine (services/formsDatabase.js)\<close>

text \<open>
  Of a form the engine reads \<^verbatim>\<open>name\<close> and \<^verbatim>\<open>verified_fields\<close>; the other properties
  (authority, form number, documents, fees) are display data and are left out.
\<close>

record form =
  form_name :: string
  verified_fields :: "field list"

definition form_pan_card_application :: form where
  "form_pan_card_application = \<lparr>form_name = ''PAN Card Application'', verified_fields = [
     \<lparr>name = ''applicant_category'', question = ''What category of applicant are you?'',
      type = ''choice'', options = Some [''Individual'', ''HUF'', ''Company'', ''Firm'', ''Trust'', ''Association of Persons''], required = True\<rparr>,
     \<lparr>name = ''full_name'', question = ''What is your full name? (As per Aadhaar/ID proof)'',
      type = ''text'', options = None, required = True\<rparr>,
     \<lparr>name = ''father_name'', question = ''What is your father's full name?'',
      type = ''text'', options = None, required = True\<rparr>,
     \<lparr>name = ''date_of_birth'', question = ''What is your date of birth? (DD/MM/YYYY format)'',
      type = ''text'', options = None, required = True\<rparr>,
     \<lparr>name = ''mobile_number'', question = ''What is your mobile number?'',
      type = ''phone'', options = None, required = True\<rparr>,
     \<lparr>name = ''email_address'', question = ''What is your email address?'',
      type = ''email'', options = None, required = True\<rparr>,
     \<lparr>name = ''address'', question = ''What is your complete residential address?'',
      type = ''textarea'', options = None, required = True\<rparr>,
     \<lparr>name = ''id_proof'', question = ''Which ID proof are you submitting?'',
      type = ''choice'', options = Some [''Aadhaar Card'', ''Voter ID'', ''Passport'', ''Driving License''], required = True\<rparr>,
     \<lparr>name = ''address_proof'', question = ''Which address proof are you submitting?'',
      type = ''choice'', options = Some [''Aadhaar Card'', ''Electricity Bill'', ''Water Bill'', ''Passport'', ''Rental Agreement''], required = True\<rparr>]\<rparr>"

definition form_passport_application :: form where
  "form_passport_application = \<lparr>form_name = ''Passport Application'', verified_fields = [
     \<lparr>name = ''application_type'', question = ''What type of passport application are you submitting?'',
      type = ''choice'', options = Some [''Fresh Passport'', ''Reissue of Passport'', ''Tatkal Passport''], required = True\<rparr>,
     \<lparr>name = ''full_name'', question = ''What is your full name? (As per documents)'',
      type = ''text'', options = None, required = True\<rparr>,
     \<lparr>name = ''date_of_birth'', question = ''What is your date of birth? (DD/MM/YYYY format)'',
      type = ''text'', options = None, required = True\<rparr>,
     \<lparr>name = ''place_of_birth'', question = ''What is your place of birth? (City and State/Country)'',
      type = ''text'', options = None, required = True\<rparr>,
     \<lparr>name = ''gender'', question = ''What is your gender?'',
      type = ''choice'', options = Some [''Male'', ''Female'', ''Other''], required = True\<rparr>,
     \<lparr>name = ''marital_status'', question = ''What is your marital status?'',
      type = ''choice'', options = Some [''Single'', ''Married'', ''Divorced'', ''Widowed''], required = True\<rparr>,
     \<lparr>name = ''address'', question = ''What is your present residential address?'',
      type = ''textarea'', options = None, required = True\<rparr>,
     \<lparr>name = ''mobile_number'', question = ''What is your mobile number?'',
      type = ''phone'', options = None, required = True\<rparr>,
     \<lparr>name = ''email_address'', question = ''What is your email address?'',
      type = ''email'', options = None, required = True\<rparr>,
     \<lparr>name = ''emergency_contact'', question = ''What is your emergency contact name and number?'',
      type = ''text'', options = None, required = True\<rparr>]\<rparr>"

definition form_driving_license :: form where
  "form_driving_license = \<lparr>form_name = ''Driving License Application'', verified_fields = [
     \<lparr>name = ''license_type'', question = ''What type of driving license are you applying for?'',
      type = ''choice'', options = Some [''Learner's License'', ''Permanent Driving License'', ''International Driving Permit''], required = True\<rparr>,
     \<lparr>name = ''vehicle_category'', question = ''For which vehicle category?'',
      type = ''choice'', options = Some [''Two Wheeler'', ''Light Motor Vehicle (Car)'', ''Commercial Vehicle'', ''Heavy Vehicle''], required = True\<rparr>,
     \<lparr>name = ''full_name'', question = ''What is your full name?'',
      type = ''text'', options = None, required = True\<rparr>,
     \<lparr>name = ''father_name'', question = ''What is your father's/husband's name?'',
      type = ''text'', options = None, required = True\<rparr>,
     \<lparr>name = ''date_of_birth'', question = ''What is your date of birth? (DD/MM/YYYY format)'',
      type = ''text'', options = None, required = True\<rparr>,
     \<lparr>name = ''blood_group'', question = ''What is your blood group?'',
      type = ''choice'', options = Some [''A+'', ''A-'', ''B+'', ''B-'', ''AB+'', ''AB-'', ''O+'', ''O-''], required = True\<rparr>,
     \<lparr>name = ''address'', question = ''What is your permanent address?'',
      type = ''textarea'', options = None, required = True\<rparr>,
     \<lparr>name = ''mobile_number'', question = ''What is your mobile number?'',
      type = ''phone'', options = None, required = True\<rparr>,
     \<lparr>name = ''email_address'', question = ''What is your email address?'',
      type = ''email'', options = None, required = True\<rparr>]\<rparr>"

definition form_voter_id :: form where
  "form_voter_id = \<lparr>form_name = ''Voter ID Registration'', verified_fields = [
     \<lparr>name = ''full_name'', question = ''What is your full name?'',
      type = ''text'', options = None, required = True\<rparr>,
     \<lparr>name = ''relative_name'', question = ''What is your father's/mother's/husband's name?'',
      type = ''text'', options = None, required = True\<rparr>,
     \<lparr>name = ''date_of_birth'', question = ''What is your date of birth? (DD/MM/YYYY format)'',
      type = ''text'', options = None, required = True\<rparr>,
     \<lparr>name = ''gender'', question = ''What is your gender?'',
      type = ''choice'', options = Some [''Male'', ''Female'', ''Other''], required = True\<rparr>,
     \<lparr>name = ''current_address'', question = ''What is your current residential address?'',
      type = ''textarea'', options = None, required = True\<rparr>,
     \<lparr>name = ''permanent_address'', question = ''What is your permanent address? (If different from current)'',
      type = ''textarea'', options = None, required = False\<rparr>,
     \<lparr>name = ''mobile_number'', question = ''What is your mobile number?'',
      type = ''phone'', options = None, required = True\<rparr>,
     \<lparr>name = ''email_address'', question = ''What is your email address?'',
      type = ''email'', options = None, required = False\<rparr>,
     \<lparr>name = ''previous_voter_id'', question = ''Do you have a previous Voter ID? If yes, provide the number'',
      type = ''text'', options = None, required = False\<rparr>]\<rparr>"

definition form_fssai_food_license :: form where
  "form_fssai_food_license = \<lparr>form_name = ''FSSAI Food Safety License'', verified_fields = [
     \<lparr>name = ''license_type'', question = ''What type of FSSAI license do you need?'',
      type = ''choice'', options = Some [(''Basic Registration (<'' @ rupee_sign @ ''12 lakh turnover)''), (''State License ('' @ rupee_sign @ ''12 lakh - '' @ rupee_sign @ ''20 crore)''), (''Central License (>'' @ rupee_sign @ ''20 crore)'')], required = True\<rparr>,
     \<lparr>name = ''business_name'', question = ''What is the exact name of your food business?'',
      type = ''text'', options = None, required = True\<rparr>,
     \<lparr>name = ''owner_name'', question = ''What is the full name of the business owner/proprietor?'',
      type = ''text'', options = None, required = True\<rparr>,
     \<lparr>name = ''business_address'', question = ''What is the complete business address? (Include building number, street, area, city, state, pincode)'',
      type = ''textarea'', options = None, required = True\<rparr>,
     \<lparr>name = ''owner_address'', question = ''What is the owner's residential address?'',
      type = ''textarea'', options = None, required = True\<rparr>,
     \<lparr>name = ''email_address'', question = ''What is your email address? (Electronic mail like name@example.com)'',
      type = ''email'', options = None, required = True\<rparr>,
     \<lparr>name = ''mobile_number'', question = ''What is your mobile number? (10-digit Indian mobile number)'',
      type = ''phone'', options = None, required = True\<rparr>,
     \<lparr>name = ''food_category'', question = ''What type of food business are you operating?'',
      type = ''choice'', options = Some [''Restaurant/Dhaba'', ''Catering Services'', ''Food Manufacturing'', ''Food Trading/Distribution'', ''Online Food Business'', ''Bakery'', ''Sweet Shop'', ''Other''], required = True\<rparr>,
     \<lparr>name = ''annual_turnover'', question = ''What is your expected annual business turnover?'',
      type = ''text'', options = None, required = True\<rparr>]\<rparr>"

definition form_gst_registration :: form where
  "form_gst_registration = \<lparr>form_name = ''GST Registration'', verified_fields = [
     \<lparr>name = ''business_type'', question = ''What type of business entity are you registering?'',
      type = ''choice'', options = Some [''Proprietorship'', ''Partnership'', ''Private Limited Company'', ''Public Limited Company'', ''LLP'', ''Trust'', ''NGO'', ''Other''], required = True\<rparr>,
     \<lparr>name = ''business_name'', question = ''What is your business name for GST registration?'',
      type = ''text'', options = None, required = True\<rparr>,
     \<lparr>name = ''pan_number'', question = ''What is your PAN number? (Format: AAAAA9999A)'',
      type = ''text'', options = None, required = True\<rparr>,
     \<lparr>name = ''business_address'', question = ''What is your principal place of business address?'',
      type = ''textarea'', options = None, required = True\<rparr>,
     \<lparr>name = ''proprietor_name'', question = ''What is the full name of the proprietor/authorized person?'',
      type = ''text'', options = None, required = True\<rparr>,
     \<lparr>name = ''email_address'', question = ''What is your email address for GST communication?'',
      type = ''email'', options = None, required = True\<rparr>,
     \<lparr>name = ''mobile_number'', question = ''What is your mobile number?'',
      type = ''phone'', options = None, required = True\<rparr>,
     \<lparr>name = ''bank_account'', question = ''What are your business bank account details? (Bank name and account number)'',
      type = ''text'', options = None, required = True\<rparr>,
     \<lparr>name = ''business_activity'', question = ''What is your main business activity?'',
      type = ''text'', options = None, required = True\<rparr>,
     \<lparr>name = ''expected_turnover'', question = ''What is your expected annual turnover?'',
      type = ''text'', options = None, required = True\<rparr>]\<rparr>"

definition form_company_registration :: form where
  "form_company_registration = \<lparr>form_name = ''Private Limited Company Registration'', verified_fields = [
     \<lparr>name = ''company_name'', question = ''What is your proposed company name? (Must end with 'Private Limited')'',
      type = ''text'', options = None, required = True\<rparr>,
     \<lparr>name = ''company_type'', question = ''What type of company do you want to register?'',
      type = ''choice'', options = Some [''Private Limited Company'', ''One Person Company (OPC)'', ''Public Limited Company'', ''Limited Liability Partnership (LLP)''], required = True\<rparr>,
     \<lparr>name = ''registered_office'', question = ''What is the registered office address?'',
      type = ''textarea'', options = None, required = True\<rparr>,
     \<lparr>name = ''authorized_capital'', question = (''What is the authorized capital amount? (Minimum '' @ rupee_sign @ ''1,00,000)''),
      type = ''text'', options = None, required = True\<rparr>,
     \<lparr>name = ''director1_name'', question = ''What is the full name of Director 1?'',
      type = ''text'', options = None, required = True\<rparr>,
     \<lparr>name = ''director1_pan'', question = ''What is the PAN number of Director 1?'',
      type = ''text'', options = None, required = True\<rparr>,
     \<lparr>name = ''director2_name'', question = ''What is the full name of Director 2? (Required for Pvt Ltd)'',
      type = ''text'', options = None, required = False\<rparr>,
     \<lparr>name = ''director2_pan'', question = ''What is the PAN number of Director 2?'',
      type = ''text'', options = None, required = False\<rparr>,
     \<lparr>name = ''business_activity'', question = ''What will be the main business activity of the company?'',
      type = ''text'', options = None, required = True\<rparr>,
     \<lparr>name = ''email_address'', question = ''What is the company's email address?'',
      type = ''email'', options = None, required = True\<rparr>]\<rparr>"

definition VERIFIED_GOVERNMENT_FORMS :: "(string \<times> form) list" where
  "VERIFIED_GOVERNMENT_FORMS =
    [(''pan_card_application'', form_pan_card_application),
     (''passport_application'', form_passport_application),
     (''driving_license'', form_driving_license),
     (''voter_id'', form_voter_id),
     (''fssai_food_license'', form_fssai_food_license),
     (''gst_registration'', form_gst_registration),
     (''company_registration'', form_company_registration)]"
text \<open>
  \<^verbatim>\<open>VERIFIED_GOVERNMENT_FORMS[id]\<close> is a property read on an object literal: an id that
  is no key of the table but names a member of \<^verbatim>\<open>Object.prototype\<close> yields that
  member, which is truthy and has no \<^verbatim>\<open>verified_fields\<close>.
\<close>

datatype form_binding = NoForm | ProtoMember | Form form

definition object_prototype_keys :: "string list" where
  "object_prototype_keys =
     [''constructor'', ''__proto__'', ''hasOwnProperty'', ''isPrototypeOf'',
      ''propertyIsEnumerable'', ''toLocaleString'', ''toString'', ''valueOf'',
      ''__defineGetter__'', ''__defineSetter__'', ''__lookupGetter__'', ''__lookupSetter__'']"

definition registry_lookup :: "string \<Rightarrow> form_binding" where
  "registry_lookup fid =
     (case map_of VERIFIED_GOVERNMENT_FORMS fid of
        Some f \<Rightarrow> Form f
      | None \<Rightarrow> if fid \<in> set object_prototype_keys then ProtoMember else NoForm)"

section \<open>Sessions and the session stores\<close>

datatype session_state = INIT | FORM_DISCOVERY | COLLECTING | COMPLETE

text \<open>
  The properties that the session objects of server.js and of services/sessionService.js
  share. Times are milliseconds since the epoch; \<open>formData\<close> keeps insertion order; a
  generated file is kept as its file name, the one property \<^verbatim>\<open>cleanup\<close> reads.
\<close>

record session_base =
  session_id :: string
  createdAt :: int
  lastActivity :: int
  state :: session_state
  currentForm :: "string option"
  currentField :: nat
  formData :: "(string \<times> string) list"
  generatedFiles :: "string list"

datatype message_type = HumanMessage | AIMessage

text \<open>\<^verbatim>\<open>class LangChainSession\<close>; \<open>memory\<close> is the chat history of its buffer memory.\<close>

record LangChainSession = session_base +
  verifiedFormStructure :: form_binding
  memory :: "(message_type \<times> string) list"

text \<open>
  A session id of a request is absent (\<open>None\<close>) or a string; \<^verbatim>\<open>!sessionId\<close> holds for
  the absent and for the empty one. \<open>uuid\<close> is what \<^verbatim>\<open>uuidv4()\<close> returns when it is
  called, \<open>now\<close> what \<^verbatim>\<open>new Date()\<close> returns during the call.
\<close>

definition falsy :: "string option \<Rightarrow> bool" where
  "falsy x = (x = None \<or> x = Some [])"

definition or_else :: "string option \<Rightarrow> string \<Rightarrow> string" where
  "or_else x d = (case x of None \<Rightarrow> d | Some s \<Rightarrow> if s = [] then d else s)"

definition new_LangChainSession :: "string option \<Rightarrow> string \<Rightarrow> int \<Rightarrow> LangChainSession" where
  "new_LangChainSession sessionId uuid now =
     \<lparr>session_id = or_else sessionId uuid, createdAt = now, lastActivity = now, state = INIT,
      currentForm = None, currentField = 0, formData = [], generatedFiles = [],
      verifiedFormStructure = NoForm, memory = []\<rparr>"

definition addMessage ::
  "message_type \<Rightarrow> string \<Rightarrow> int \<Rightarrow> LangChainSession \<Rightarrow> LangChainSession" where
  "addMessage ty content now session =
     session\<lparr>memory := memory session @ [(ty, content)], lastActivity := now\<rparr>"

text \<open>
  A store is the \<^verbatim>\<open>Map\<close> from ids to session objects, in insertion order. The found
  session is mutated in place, so the store holds the updated object.
\<close>

definition getSession ::
  "string option \<Rightarrow> string \<Rightarrow> int \<Rightarrow> (string \<times> LangChainSession) list
     \<Rightarrow> LangChainSession \<times> (string \<times> LangChainSession) list" where
  "getSession sessionId uuid now sessions =
     (case (if falsy sessionId then None else map_of sessions (or_else sessionId uuid)) of
        None \<Rightarrow>
          (let session = new_LangChainSession sessionId uuid now
           in (session, AList.update (session_id session) session sessions))
      | Some found \<Rightarrow>
          (let session = found\<lparr>lastActivity := now\<rparr>
           in (session, AList.update (or_else sessionId uuid) session sessions)))"

text \<open>
  \<^verbatim>\<open>cleanupSessions(maxAge)\<close>: the loop over the entries of the store; \<open>maxAge = None\<close>
  is the call without argument.
\<close>

definition default_maxAge :: int where
  "default_maxAge = 24 * 60 * 60 * 1000"

fun cleanupSessions_loop ::
  "int \<Rightarrow> int \<Rightarrow> (string \<times> 'a session_base_scheme) list
     \<Rightarrow> (string \<times> 'a session_base_scheme) list \<times> nat
     \<Rightarrow> (string \<times> 'a session_base_scheme) list \<times> nat" where
  "cleanupSessions_loop now maxAge [] (sessions, count) = (sessions, count)"
| "cleanupSessions_loop now maxAge ((sid, session) # entries) (sessions, count) =
     (let age = now - lastActivity session
      in if age > maxAge
         then cleanupSessions_loop now maxAge entries (AList.delete sid sessions, count + 1)
         else cleanupSessions_loop now maxAge entries (sessions, count))"

definition cleanupSessions ::
  "int option \<Rightarrow> int \<Rightarrow> (string \<times> LangChainSession) list \<Rightarrow> (string \<times> LangChainSession) list" where
  "cleanupSessions maxAge now sessions =
     fst (cleanupSessions_loop now (case maxAge of None \<Rightarrow> default_maxAge | Some m \<Rightarrow> m)
            sessions (sessions, 0))"

section \<open>The LangChain engine: processUserMessage (services/aiService.js)\<close>

text \<open>
  The two chains call the language model; what they return is an input of the model.
  A reply carries a message and a confidence, which the engine only passes on
  (confidences are written in percent).
\<close>

record llm_reply =
  message :: string
  confidence :: nat

record discovery = llm_reply +
  matched_form_id :: "string option"

record field_check =
  check_valid :: bool
  cleaned_value :: string
  error_message :: "string option"

text \<open>
  The objects \<^verbatim>\<open>processUserMessage\<close> returns, one constructor for each \<^verbatim>\<open>intent\<close>. The
  \<^verbatim>\<open>message\<close> texts that are fixed templates around the other properties are left out.
\<close>

datatype response =
    form_discovered form string string nat
  | clarification_needed string nat
  | validation_error "string option" string
  | form_complete "(string \<times> string) list" form
  | next_question string "nat \<times> nat"
  | error_intent

text \<open>
  The tail of the collection branch, after the answer is stored: advance the cursor, log
  the acknowledgement, then complete the form or ask the next question.
\<close>

definition advance :: "form \<Rightarrow> int \<Rightarrow> LangChainSession \<Rightarrow> response option \<times> LangChainSession" where
  "advance f now session =
     (let s1 = session\<lparr>currentField := currentField session + 1\<rparr>;
          s2 = addMessage AIMessage ''Thank you! Information recorded.'' now s1
      in if currentField s2 \<ge> length (verified_fields f)
         then (Some (form_complete (formData s2) f), s2\<lparr>state := COMPLETE\<rparr>)
         else (Some (next_question (question (verified_fields f ! currentField s2))
                       (currentField s2 + 1, length (verified_fields f))), s2))"

text \<open>
  \<open>found\<close> is the result of the form discovery chain and \<open>checked\<close> that of the field
  validation chain, \<open>None\<close> when the chain throws. Every exception inside the function is
  caught by its \<^verbatim>\<open>try\<close> and answered with the error intent; what was mutated before the
  throw stays mutated. In a state other than the three tested ones the function returns
  \<^verbatim>\<open>undefined\<close>, here \<open>None\<close>.

  The form discovery phase. The \<^verbatim>\<open>progress\<close> argument of the chain reads
  \<^verbatim>\<open>verifiedFormStructure?.verified_fields.length\<close>, which throws on a prototype member;
  so does \<^verbatim>\<open>verified_fields[0]\<close> after such a member is bound, and
  \<^verbatim>\<open>firstField.question\<close> when the bound form has no field.
\<close>

definition form_discovery_phase ::
  "LangChainSession \<Rightarrow> int \<Rightarrow> discovery option \<Rightarrow> response option \<times> LangChainSession" where
  "form_discovery_phase session now found =
     (if verifiedFormStructure session = ProtoMember then (Some error_intent, session)
      else case found of
        None \<Rightarrow> (Some error_intent, session)
      | Some result \<Rightarrow>
          (let matched = (if falsy (matched_form_id result) then NoForm
                          else registry_lookup (or_else (matched_form_id result) []))
           in if matched \<noteq> NoForm then
             (let s1 = session\<lparr>currentForm := matched_form_id result,
                                verifiedFormStructure := matched,
                                state := COLLECTING, currentField := 0\<rparr>
              in case matched of
                   Form f \<Rightarrow>
                     (case verified_fields f of
                        [] \<Rightarrow> (Some error_intent, addMessage AIMessage (message result) now s1)
                      | firstField # _ \<Rightarrow>
                          (Some (form_discovered f (question firstField) (message result)
                                   (confidence result)),
                           addMessage AIMessage (message result) now s1))
                 | _ \<Rightarrow> (Some error_intent, s1))
           else (Some (clarification_needed (message result) (confidence result)),
                 addMessage AIMessage (message result) now session)))"

text \<open>
  The field collection phase. Reading the current field throws when no form is bound, and
  \<^verbatim>\<open>validateFieldInput\<close> throws on the undefined field of a cursor past the last field.
\<close>

definition field_collection_phase ::
  "string \<Rightarrow> LangChainSession \<Rightarrow> int \<Rightarrow> field_check option
     \<Rightarrow> response option \<times> LangChainSession" where
  "field_collection_phase userMessage session now checked =
     (case verifiedFormStructure session of
        Form f \<Rightarrow>
          (if currentField session \<ge> length (verified_fields f) then (Some error_intent, session)
           else
             (let currentField' = verified_fields f ! currentField session in
              case validateFieldInput currentField' userMessage of
                Inl _ \<Rightarrow> (Some error_intent, session)
              | Inr validation \<Rightarrow>
                  (if type currentField' = ''complex'' then
                     (case checked of
                        None \<Rightarrow> (Some error_intent, session)
                      | Some validationResult \<Rightarrow>
                          if \<not> check_valid validationResult
                          then (Some (validation_error (error_message validationResult)
                                        (question currentField')), session)
                          else advance f now
                                 (session\<lparr>formData := AList.update (name currentField')
                                    (cleaned_value validationResult) (formData session)\<rparr>))
                   else if \<not> valid validation
                     then (Some (validation_error (error validation) (question currentField')),
                           session)
                     else advance f now
                            (session\<lparr>formData := AList.update (name currentField')
                               (value validation) (formData session)\<rparr>))))
      | _ \<Rightarrow> (Some error_intent, session))"

definition processUserMessage ::
  "string \<Rightarrow> LangChainSession \<Rightarrow> int \<Rightarrow> discovery option \<Rightarrow> field_check option
     \<Rightarrow> response option \<times> LangChainSession" where
  "processUserMessage userMessage session0 now found checked =
     (let session = addMessage HumanMessage userMessage now session0 in
      if state session = INIT \<or> state session = FORM_DISCOVERY
      then form_discovery_phase session now found
      else if state session = COLLECTING
      then field_collection_phase userMessage session now checked
      else (None, session))"



section \<open>The advisory-driven engine of server.js\<close>

text \<open>
  The form details of a discovered form; \<open>total_fields = 0\<close> also stands for an absent
  property (the source reads it through \<^verbatim>\<open>||\<close> only). Authority, documents, fees and
  processing time are display data and are left out.
\<close>

record formDetails =
  details_name :: string
  fields_required :: "string list"
  total_fields :: nat

text \<open>The object \<^verbatim>\<open>callClaudeAI\<close> returns: the model's JSON reply or a fallback's result.\<close>

record aiResponse = llm_reply +
  intent :: string
  form_type :: "string option"
  form_details :: "formDetails option"
  current_question :: "string option"
  field_being_asked :: "string option"

text \<open>The session object of \<^verbatim>\<open>createSession\<close>; a conversation entry is type, content, time.\<close>

record session = session_base +
  conversation :: "(string \<times> string \<times> int) list"
  dynamicFormDetails :: "formDetails option"

definition createSession ::
  "string option \<Rightarrow> string \<Rightarrow> int \<Rightarrow> (string \<times> session) list
     \<Rightarrow> session \<times> (string \<times> session) list" where
  "createSession sessionId uuid now sessions =
     (let sid = or_else sessionId uuid;
          session = \<lparr>session_id = sid, createdAt = now, lastActivity = now, state = INIT,
                     currentForm = None, currentField = 0, formData = [], generatedFiles = [],
                     conversation = [], dynamicFormDetails = None\<rparr>
      in (session, AList.update sid session sessions))"

definition getSession_v3 ::
  "string option \<Rightarrow> string \<Rightarrow> int \<Rightarrow> (string \<times> session) list
     \<Rightarrow> session \<times> (string \<times> session) list" where
  "getSession_v3 sessionId uuid now sessions =
     (case (if falsy sessionId then None else map_of sessions (or_else sessionId uuid)) of
        None \<Rightarrow> createSession sessionId uuid now sessions
      | Some found \<Rightarrow>
          (let session = found\<lparr>lastActivity := now\<rparr>
           in (session, AList.update (or_else sessionId uuid) session sessions)))"

text \<open>
  \<^verbatim>\<open>updateSession(session.id, updates)\<close> as \<^verbatim>\<open>processConversation\<close> calls it: the session
  is the object the store holds under its id (the chat endpoint has just taken it from
  \<^verbatim>\<open>getSession\<close>), so the updates are assigned to that object.
\<close>

definition updateSession :: "(session \<Rightarrow> session) \<Rightarrow> int \<Rightarrow> session \<Rightarrow> session" where
  "updateSession updates now session = (updates session)\<lparr>lastActivity := now\<rparr>"

text \<open>\<^verbatim>\<open>cleanup\<close>: the hourly sweep; it returns the file names it then unlinks.\<close>

definition oneHour :: int where
  "oneHour = 60 * 60 * 1000"

fun cleanup_loop ::
  "int \<Rightarrow> (string \<times> session) list \<Rightarrow> (string \<times> session) list \<times> string list
     \<Rightarrow> (string \<times> session) list \<times> string list" where
  "cleanup_loop now [] (sessions, filesToDelete) = (sessions, filesToDelete)"
| "cleanup_loop now ((sessionId, session) # entries) (sessions, filesToDelete) =
     (if now - lastActivity session > oneHour
      then cleanup_loop now entries
             (AList.delete sessionId sessions, filesToDelete @ generatedFiles session)
      else cleanup_loop now entries (sessions, filesToDelete))"

definition cleanup :: "int \<Rightarrow> (string \<times> session) list \<Rightarrow> (string \<times> session) list \<times> string list" where
  "cleanup now sessions = cleanup_loop now sessions (sessions, [])"

subsection \<open>The fallbacks of callClaudeAI\<close>

definition governmentFormKeywords :: "(string \<times> string \<times> string) list" where
  "governmentFormKeywords =
    [(''fssai'', ''fssai_food_license'', ''FSSAI Food License''),
     (''food license'', ''fssai_food_license'', ''FSSAI Food License''),
     (''food safety'', ''fssai_food_license'', ''FSSAI Food License''),
     (''restaurant license'', ''fssai_food_license'', ''FSSAI Food License''),
     (''gst'', ''gst_registration'', ''GST Registration''),
     (''goods and services tax'', ''gst_registration'', ''GST Registration''),
     (''company registration'', ''company_registration'', ''Company Registration''),
     (''business registration'', ''business_registration'', ''Business Registration''),
     (''partnership'', ''partnership_registration'', ''Partnership Registration''),
     (''llp'', ''llp_registration'', ''LLP Registration''),
     (''trademark'', ''trademark_registration'', ''Trademark Registration''),
     (''copyright'', ''copyright_registration'', ''Copyright Registration''),
     (''patent'', ''patent_application'', ''Patent Application''),
     (''import export'', ''import_export_license'', ''Import Export License''),
     (''iec'', ''import_export_license'', ''Import Export Code''),
     (''drug license'', ''drug_license'', ''Drug License''),
     (''shop establishment'', ''shop_establishment_license'', ''Shop & Establishment License''),
     (''pan'', ''pan_card'', ''PAN Card''),
     (''passport'', ''passport'', ''Passport''),
     (''driving'', ''driving_license'', ''Driving License''),
     (''aadhaar'', ''aadhaar_card'', ''Aadhaar Card''),
     (''voter'', ''voter_id'', ''Voter ID Card''),
     (''income certificate'', ''income_certificate'', ''Income Certificate''),
     (''caste certificate'', ''caste_certificate'', ''Caste Certificate''),
     (''domicile'', ''domicile_certificate'', ''Domicile Certificate''),
     (''marriage certificate'', ''marriage_certificate'', ''Marriage Certificate''),
     (''birth certificate'', ''birth_certificate'', ''Birth Certificate''),
     (''death certificate'', ''death_certificate'', ''Death Certificate'')]"

definition formTemplates :: "(string \<times> formDetails) list" where
  "formTemplates =
    [(''fssai_food_license'',
      \<lparr>details_name = ''FSSAI Food License'',
       fields_required = [''license_type'', ''business_name'', ''owner_name'', ''business_postal_address'', ''owner_postal_address'', ''email_address'', ''business_phone'', ''food_category'', ''business_type''],
       total_fields = 9\<rparr>),
     (''gst_registration'',
      \<lparr>details_name = ''GST Registration'',
       fields_required = [''business_name'', ''business_type'', ''pan_number'', ''business_postal_address'', ''proprietor_name'', ''email_address'', ''mobile_number'', ''bank_details'', ''expected_turnover''],
       total_fields = 9\<rparr>),
     (''company_registration'',
      \<lparr>details_name = ''Company Registration'',
       fields_required = [''company_name'', ''company_type'', ''registered_office_address'', ''authorized_capital'', ''director_details'', ''business_activity'', ''email_address'', ''mobile_number''],
       total_fields = 8\<rparr>)]"

definition firstQuestions :: "(string \<times> string) list" where
  "firstQuestions =
    [(''fssai_food_license'',
      (''What type of FSSAI license do you need? (Basic Registration for turnover <'' @ rupee_sign @ ''12 lakh, State License for '' @ rupee_sign @ ''12 lakh-'' @ rupee_sign @ ''20 crore, or Central License for >'' @ rupee_sign @ ''20 crore)'')),
     (''gst_registration'',
      ''What type of business entity are you registering for GST? (Proprietorship, Partnership, Private Limited Company, etc.)''),
     (''company_registration'',
      ''What type of company do you want to register? (Private Limited, Public Limited, One Person Company, etc.)''),
     (''trademark_registration'',
      ''What do you want to register as a trademark? (Brand name, logo, slogan, etc.)''),
     (''import_export_license'',
      ''What type of Import Export Code (IEC) do you need? (Individual, Partnership, Company, etc.)'')]"

definition universalQuestions :: "(string \<times> string) list" where
  "universalQuestions =
    [(''email_address'',
      ''What is your EMAIL address? (Electronic mail like name@example.com)''),
     (''mobile_number'',
      ''What is your mobile phone number? (10-digit number)''),
     (''business_phone'',
      ''What is your business phone number?''),
     (''postal_address'',
      ''What is your complete POSTAL address? (Include house/building number, street, area, city, state, and pincode)''),
     (''business_postal_address'',
      ''What is your complete BUSINESS address? (Include building number, street, area, city, state, and pincode)''),
     (''owner_postal_address'',
      ''What is your complete RESIDENTIAL address? (Include house number, street, city, state, and pincode)''),
     (''registered_office_address'',
      ''What is the complete REGISTERED OFFICE address? (Include building number, street, area, city, state, and pincode)''),
     (''applicant_name'',
      ''What is your full legal name as it appears on your official documents?''),
     (''owner_name'',
      ''What is the full name of the business owner/proprietor?''),
     (''proprietor_name'',
      ''What is the full name of the proprietor?''),
     (''business_name'',
      ''What is the exact name of your business/company?''),
     (''company_name'',
      ''What is your proposed company name?''),
     (''business_type'',
      ''What type of business do you operate? (Manufacturing, Trading, Service, etc.)''),
     (''company_type'',
      ''What type of company? (Private Limited, Public Limited, One Person Company, etc.)''),
     (''food_category'',
      ''What type of food business? (Restaurant, Catering, Manufacturing, Trading, etc.)''),
     (''license_type'',
      ''What type of license do you need?''),
     (''business_activity'',
      ''What is the main business activity/nature of business?''),
     (''authorized_capital'',
      ''What is the proposed authorized capital amount?''),
     (''expected_turnover'',
      ''What is your expected annual business turnover?''),
     (''bank_details'',
      ''What are your business bank account details? (Bank name, account number, IFSC)''),
     (''pan_number'',
      ''What is your PAN (Permanent Account Number)? (Format: AAAAA9999A)''),
     (''aadhaar_number'',
      ''What is your Aadhaar number? (12-digit number)''),
     (''date_of_birth'',
      ''What is your date of birth? (DD/MM/YYYY format)''),
     (''incorporation_date'',
      ''When do you want to incorporate the company? (DD/MM/YYYY)''),
     (''director_details'',
      ''Who are the proposed directors? (Please provide names and details)''),
     (''relevant_details'',
      ''Please provide any other relevant details for this application''),
     (''supporting_information'',
      ''Do you have any additional supporting information?'')]"

definition contextQuestions :: "(string \<times> (string \<times> string) list) list" where
  "contextQuestions =
    [(''fssai_food_license'',
      [(''business_name'', ''What is the name of your food business as you want it to appear on the FSSAI license?''),
       (''food_category'', ''What type of food business are you operating? (Restaurant, Food Manufacturing, Catering, Online Food Business, etc.)'')]),
     (''gst_registration'',
      [(''business_name'', ''What is your business name for GST registration?''),
       (''business_type'', ''What type of business entity? (Proprietorship, Partnership, Private Limited Company, etc.)'')]),
     (''company_registration'',
      [(''company_name'', ''What is your proposed company name? (It should end with Private Limited)''),
       (''business_activity'', ''What will be the main business activity of your company?'')])]"

definition universalFirstQuestions :: "(string \<times> string) list" where
  "universalFirstQuestions =
    [(''fssai_food_license'',
      (''What type of FSSAI license do you need? (Basic Registration for turnover <'' @ rupee_sign @ ''12 lakh, State License for '' @ rupee_sign @ ''12 lakh-'' @ rupee_sign @ ''20 crore, or Central License for >'' @ rupee_sign @ ''20 crore)'')),
     (''gst_registration'',
      ''What type of business entity are you registering for GST? (Proprietorship, Partnership, Private Limited Company, etc.)''),
     (''company_registration'',
      ''What type of company do you want to register? (Private Limited, Public Limited, One Person Company, etc.)''),
     (''trademark_registration'',
      ''What do you want to register as a trademark? (Word mark, Logo, Device mark, etc.)''),
     (''import_export_license'',
      ''Are you applying as an Individual, Partnership, or Company for the Import Export Code?''),
     (''shop_establishment_license'',
      ''What type of establishment are you registering? (Shop, Office, Commercial Establishment, etc.)''),
     (''drug_license'',
      ''What type of drug license do you need? (Manufacturing, Trading, Retail, etc.)''),
     (''income_certificate'',
      ''For whom do you need the income certificate? (Self, Family member, etc.)''),
     (''caste_certificate'',
      ''What is the category you belong to? (SC, ST, OBC, etc.)''),
     (''birth_certificate'',
      ''For whom do you need the birth certificate? (Self, Child, etc.)''),
     (''marriage_certificate'',
      ''What type of marriage certificate do you need? (Registration certificate, Court marriage certificate, etc.)'')]"
text \<open>Table lookups below are on the tables' own keys.\<close>

definition generateUniversalFormDetails :: "string \<Rightarrow> string \<Rightarrow> formDetails" where
  "generateUniversalFormDetails formType formName =
     (case map_of formTemplates formType of
        Some t \<Rightarrow> t
      | None \<Rightarrow>
          \<lparr>details_name = formName,
           fields_required = [''applicant_name'', ''postal_address'', ''email_address'',
                              ''mobile_number'', ''relevant_details'', ''supporting_information''],
           total_fields = 6\<rparr>)"

definition generateFirstQuestion :: "string \<Rightarrow> string" where
  "generateFirstQuestion formType =
     (case map_of firstQuestions formType of
        Some q \<Rightarrow> q
      | None \<Rightarrow> ''What is the full legal name of the applicant for this form?'')"

text \<open>The loop over \<^verbatim>\<open>Object.entries(governmentFormKeywords)\<close>, left at the first hit.\<close>

fun detectForm :: "(string \<times> string \<times> string) list \<Rightarrow> string \<Rightarrow> (string \<times> string) option" where
  "detectForm [] input = None"
| "detectForm ((keyword, formInfo) # entries) input =
     (if str_includes input keyword then Some formInfo else detectForm entries input)"

definition analyzeUniversalTextResponse :: "string \<Rightarrow> string \<Rightarrow> session \<Rightarrow> aiResponse" where
  \<open>analyzeUniversalTextResponse text userMessage session =
     (let input = toLowerCase userMessage;
          detectedForm = detectForm governmentFormKeywords input
      in if state session = COLLECTING then
           \<lparr>message = ''Thank you for providing that information.'', confidence = 80,
            intent = ''field_collection'', form_type = currentForm session, form_details = None,
            current_question = None, field_being_asked = None\<rparr>
         else case detectedForm of
           Some (ty, nm) \<Rightarrow>
             \<lparr>message = ''I can help you with '' @ nm @ ''. Let me gather the required information.'',
              confidence = 80, intent = ''form_discovery'', form_type = Some ty,
              form_details = Some (generateUniversalFormDetails ty nm),
              current_question = Some (generateFirstQuestion ty), field_being_asked = None\<rparr>
         | None \<Rightarrow>
             \<lparr>message = ''I can help you with any Indian government form or document. This includes FSSAI food license, GST registration, company registration, trademark, PAN card, passport, driving license, and many more. What specific form do you need help with?'',
              confidence = 60, intent = ''clarification_needed'', form_type = None,
              form_details = None, current_question = None, field_being_asked = None\<rparr>)\<close>

definition govKeywords :: "string list" where
  "govKeywords =
     [''license'', ''registration'', ''certificate'', ''card'', ''permit'', ''application'', ''form'']"

definition universalFallback :: "string \<Rightarrow> session \<Rightarrow> aiResponse" where
  \<open>universalFallback userMessage session =
     (let message = toLowerCase userMessage;
          hasGovKeyword = list_ex (\<lambda>keyword. str_includes message keyword) govKeywords
      in if hasGovKeyword then
           \<lparr>message = ''I can help you with government forms and documents. Could you please specify exactly which form or certificate you need? For example: "FSSAI food license", "GST registration", "company registration", etc.'',
            confidence = 50, intent = ''form_discovery'',
            form_type = Some ''general_government_form'', form_details = None,
            current_question = None, field_being_asked = None\<rparr>
         else
           \<lparr>message = ''I'm your government form assistant. I can help you with any Indian government form including FSSAI food license, GST registration, PAN card, passport, driving license, company registration, trademark registration, and many more. What specific government form or document do you need?'',
            confidence = 40, intent = ''clarification_needed'', form_type = None,
            form_details = None, current_question = None, field_being_asked = None\<rparr>)\<close>

text \<open>
  What the advisory call does is an input: every model call throws, or the model's text is
  not parseable as JSON, or it parses to a reply object.
\<close>

datatype advisory = ModelsFailed | Unparseable string | Parsed aiResponse

definition callClaudeAI :: "string \<Rightarrow> session \<Rightarrow> advisory \<Rightarrow> aiResponse" where
  "callClaudeAI userMessage session adv =
     (case adv of
        Parsed parsed \<Rightarrow> parsed
      | Unparseable claudeResponse \<Rightarrow>
          analyzeUniversalTextResponse claudeResponse userMessage session
      | ModelsFailed \<Rightarrow> universalFallback userMessage session)"

subsection \<open>processConversation\<close>

definition generateUniversalFirstQuestion :: "string \<Rightarrow> string" where
  "generateUniversalFirstQuestion formType =
     (case map_of universalFirstQuestions formType of
        Some q \<Rightarrow> q
      | None \<Rightarrow> ''What is your full legal name for this application?'')"

text \<open>
  \<^verbatim>\<open>generateUniversalQuestion\<close>; with an undefined field name and no table entry the
  final \<^verbatim>\<open>fieldName.replace\<close> throws.
\<close>

definition generateUniversalQuestion :: "string option \<Rightarrow> string \<Rightarrow> js_error + string" where
  "generateUniversalQuestion fieldName formType =
     (case fieldName of
        None \<Rightarrow> Inl TypeError
      | Some fieldName' \<Rightarrow>
          (case (case map_of contextQuestions formType of
                   None \<Rightarrow> None
                 | Some t \<Rightarrow> map_of t fieldName') of
             Some q \<Rightarrow> Inr q
           | None \<Rightarrow>
               (case map_of universalQuestions fieldName' of
                  Some q \<Rightarrow> Inr q
                | None \<Rightarrow>
                    Inr (''Please provide your '' @
                         map (\<lambda>c. if c = CHR ''_'' then CHR '' '' else c) fieldName' @ '':''))))"

fun string_of_nat :: "nat \<Rightarrow> string" where
  "string_of_nat n =
     (if n < 10 then [''0123456789'' ! n]
      else string_of_nat (n div 10) @ [''0123456789'' ! (n mod 10)])"

declare string_of_nat.simps [simp del]

definition nth_opt :: "'a list \<Rightarrow> nat \<Rightarrow> 'a option" where
  "nth_opt xs i = (if i < length xs then Some (xs ! i) else None)"

text \<open>\<^verbatim>\<open>total_fields || fields_required.length\<close>\<close>

definition totalFields :: "formDetails \<Rightarrow> nat" where
  "totalFields details =
     (if total_fields details \<noteq> 0 then total_fields details
      else length (fields_required details))"

datatype action =
    start_universal_form string formDetails string
  | universal_form_complete "(string \<times> string) list" "string option" formDetails
  | ask_universal_question string "string option" nat nat
  | validation_error_action string "string option"
  | clarification_needed_action string

text \<open>
  \<open>processConversation\<close> returns the actions of its result object, or the exception it
  throws, and the session as it has mutated it.
\<close>

definition processConversation ::
  "aiResponse \<Rightarrow> session \<Rightarrow> string \<Rightarrow> int \<Rightarrow> (js_error + action list) \<times> session" where
  "processConversation aiResponse session0 userMessage now =
     (let session = session0\<lparr>conversation := conversation session0 @
                      [(''user'', userMessage, now), (''bot'', message aiResponse, now)]\<rparr>
      in
      if intent aiResponse = ''form_discovery'' then
        (case form_details aiResponse of
           Some details \<Rightarrow>
             (if falsy (form_type aiResponse) then (Inr [], session)
              else
                (Inr [start_universal_form (or_else (form_type aiResponse) []) details
                        (or_else (current_question aiResponse)
                           (generateUniversalFirstQuestion (or_else (form_type aiResponse) [])))],
                 updateSession
                   (\<lambda>s. s\<lparr>state := COLLECTING, currentForm := form_type aiResponse,
                           currentField := 0, formData := [],
                           dynamicFormDetails := Some details\<rparr>) now session))
         | None \<Rightarrow> (Inr [], session))
      else if intent aiResponse = ''field_collection'' then
        (case dynamicFormDetails session of
           Some details \<Rightarrow>
             (if falsy (currentForm session) then (Inr [], session)
              else
                (let fieldName =
                       or_else (field_being_asked aiResponse)
                         (or_else (nth_opt (fields_required details) (currentField session))
                            (''field_'' @ string_of_nat (currentField session)));
                     s1 = session\<lparr>formData := AList.update fieldName userMessage (formData session),
                                  currentField := currentField session + 1\<rparr>;
                     totalFields' = totalFields details
                 in if currentField s1 \<ge> totalFields' then
                      (let s2 = updateSession (\<lambda>s. s\<lparr>state := COMPLETE\<rparr>) now s1
                       in (Inr [universal_form_complete (formData s2) (currentForm s2) details],
                           updateSession (\<lambda>s. s) now s2))
                    else
                      (let nextFieldName = nth_opt (fields_required details) (currentField s1) in
                       case (if falsy (current_question aiResponse)
                             then generateUniversalQuestion nextFieldName
                                    (or_else (currentForm s1) [])
                             else Inr (or_else (current_question aiResponse) [])) of
                         Inl e \<Rightarrow> (Inl e, s1)
                       | Inr nextQuestion \<Rightarrow>
                           (Inr [ask_universal_question nextQuestion nextFieldName
                                   (currentField s1 + 1) totalFields'],
                            updateSession (\<lambda>s. s) now s1))))
         | None \<Rightarrow> (Inr [], session))
      else if intent aiResponse = ''validation_error'' then
        (Inr [validation_error_action (message aiResponse) (current_question aiResponse)], session)
      else if intent aiResponse = ''clarification_needed'' then
        (Inr [clarification_needed_action (message aiResponse)], session)
      else (Inr [], session))"

text \<open>
  The chat endpoint for a message that is a non-empty string and a session that the store
  holds: \<^verbatim>\<open>getSession\<close> sets the session's last activity, then the advisory is called and
  its reply processed. \<open>chat_turns\<close> is a sequence of such requests on one session.
\<close>

definition chat_endpoint ::
  "string \<Rightarrow> advisory \<Rightarrow> int \<Rightarrow> session \<Rightarrow> (js_error + action list) \<times> session" where
  "chat_endpoint message' adv now session0 =
     (let session = session0\<lparr>lastActivity := now\<rparr>
      in processConversation (callClaudeAI message' session adv) session message' now)"


section \<open>The date shape of the specification\<close>

text \<open>
  The specification's words for a date answer: two digits, slash, two digits, slash, four
  digits, and nothing else.
\<close>

definition spec_date_shape :: "string \<Rightarrow> bool" where
  "spec_date_shape v =
     (length v = 10 \<and> list_all is_digit (take 2 v) \<and> v ! 2 = CHR ''/'' \<and>
      list_all is_digit (take 2 (drop 3 v)) \<and> v ! 5 = CHR ''/'' \<and>
      list_all is_digit (drop 6 v))"

section \<open>The cursor invariant of the LangChain engine\<close>

text \<open>
  What the engine maintains of a session: while collecting, the cursor is the index of a
  field of the bound form; when complete, it is the number of fields; before a form is
  bound, and when a prototype member was bound in place of a form, it is 0.
\<close>

definition cursor_invariant :: "LangChainSession \<Rightarrow> bool" where
  "cursor_invariant session =
     (case verifiedFormStructure session of
        Form f \<Rightarrow>
          (case state session of
             COLLECTING \<Rightarrow> currentField session < length (verified_fields f)
           | COMPLETE \<Rightarrow> currentField session = length (verified_fields f)
           | _ \<Rightarrow> currentField session = 0)
      | _ \<Rightarrow> currentField session = 0)"

section \<open>Properties of the string functions and regular expressions\<close>

lemma regex_exactly:
  "regex_test ((p, Exactly n) # r) s \<longleftrightarrow>
     n \<le> length s \<and> list_all p (take n s) \<and> regex_test r (drop n s)"
proof (induction n arbitrary: s)
  case 0 show ?case by simp
next
  case (Suc n) show ?case by (cases s) (auto simp: Suc)
qed

lemma dateRegex_shape: "regex_test dateRegex v = spec_date_shape v"
proof -
  have one: "\<And>xs. xs \<noteq> [] \<Longrightarrow> list_all (lit CHR ''/'') (take (Suc 0) xs) = (xs ! 0 = CHR ''/'')"
    by (case_tac xs) (simp_all add: lit_def)
  show ?thesis
  proof (cases "length v = 10")
    case True
    then have ne: "drop 2 v \<noteq> []" "drop 5 v \<noteq> []" by auto
    show ?thesis
      unfolding dateRegex_def spec_date_shape_def using True
      by (simp add: regex_exactly one[OF ne(1)] one[OF ne(2)] numeral_3_eq_3[symmetric])
  next
    case False
    then show ?thesis
      unfolding dateRegex_def spec_date_shape_def
      by (auto simp: regex_exactly)
  qed
qed

lemma strip_digits: "list_all is_digit (strip_non_digits s)"
  by (simp add: strip_non_digits_def list_all_iff)

lemma strip_idem: "strip_non_digits (strip_non_digits s) = strip_non_digits s"
  by (simp add: strip_non_digits_def)

lemma phoneRegex_digits:
  "regex_test phoneRegex (strip_non_digits s) \<longleftrightarrow>
     length (strip_non_digits s) = 10 \<and> hd (strip_non_digits s) \<in> set ''6789''"
proof -
  have d: "list_all is_digit (strip_non_digits s)" by (rule strip_digits)
  show ?thesis
  proof (cases "strip_non_digits s")
    case Nil then show ?thesis by (simp add: phoneRegex_def)
  next
    case (Cons c t)
    with d have "list_all is_digit t" by simp
    then have "list_all is_digit (take 9 t)" by (simp add: list_all_iff) (meson in_set_takeD)
    with Cons show ?thesis
      by (auto simp: phoneRegex_def regex_exactly)
  qed
qed

lemma dropWhile_rev_stable:
  assumes "xs = [] \<or> \<not> P (hd xs)"
  shows "dropWhile P (rev (dropWhile P (rev xs))) = rev (dropWhile P (rev xs))"
proof -
  define B where "B = dropWhile P (rev xs)"
  have "dropWhile P (rev B) = rev B"
  proof (cases "B = []")
    case True then show ?thesis by simp
  next
    case False
    have xs: "xs \<noteq> []" using False unfolding B_def by (cases xs) simp_all
    have "rev xs = takeWhile P (rev xs) @ B" unfolding B_def by simp
    then have "last (rev xs) = last B" using False by (metis last_appendR)
    then have "last B = hd xs" using xs by (simp add: last_rev)
    then have "hd (rev B) = hd xs" using False by (simp add: hd_rev)
    with assms xs have "\<not> P (hd (rev B))" by simp
    then show ?thesis by (simp add: dropWhile_eq_self_iff)
  qed
  then show ?thesis unfolding B_def .
qed

lemma trim_idem: "trim (trim s) = trim s"
proof -
  let ?A = "dropWhile is_space s"
  have a: "?A = [] \<or> \<not> is_space (hd ?A)" using hd_dropWhile[of is_space s] by blast
  have "dropWhile is_space (rev (dropWhile is_space (rev ?A))) = rev (dropWhile is_space (rev ?A))"
    using a by (rule dropWhile_rev_stable)
  then show ?thesis by (simp add: trim_def)
qed

lemma str_includes_empty: "str_includes s []"
  by (cases s) simp_all

lemma validChoice_empty: "validChoice opts [] = (opts \<noteq> [])"
  by (cases opts) (simp_all add: validChoice_def toLowerCase_def str_includes_empty)

section \<open>The loops of the session stores\<close>

lemma cleanupSessions_loop_filter:
  "cleanupSessions_loop now maxAge entries (sessions, count) =
     (filter (\<lambda>(k, s). \<not> (\<exists>(k', s') \<in> set entries. k' = k \<and> now - lastActivity s' > maxAge)) sessions,
      count + length (filter (\<lambda>(k, s). now - lastActivity s > maxAge) entries))"
proof (induction entries arbitrary: sessions count)
  case Nil show ?case by simp
next
  case (Cons e entries)
  obtain sid session where e: "e = (sid, session)" by (cases e)
  show ?case
  proof (cases "now - lastActivity session > maxAge")
    case True
    have "filter (\<lambda>(k, s). \<not> (\<exists>(k', s') \<in> set entries. k' = k \<and> now - lastActivity s' > maxAge))
            (AList.delete sid sessions) =
          filter (\<lambda>(k, s). \<not> (\<exists>(k', s') \<in> set ((sid, session) # entries). k' = k \<and> now - lastActivity s' > maxAge)) sessions"
      using True unfolding AList.delete_eq filter_filter
      by (intro filter_cong refl) auto
    then show ?thesis using True unfolding e by (simp add: Cons)
  next
    case False
    have "filter (\<lambda>(k, s). \<not> (\<exists>(k', s') \<in> set entries. k' = k \<and> now - lastActivity s' > maxAge)) sessions =
          filter (\<lambda>(k, s). \<not> (\<exists>(k', s') \<in> set ((sid, session) # entries). k' = k \<and> now - lastActivity s' > maxAge)) sessions"
      using False by (intro filter_cong refl) auto
    then show ?thesis using False unfolding e by (simp add: Cons)
  qed
qed

lemma distinct_keys_filter:
  assumes "distinct (map fst sessions)"
  shows "filter (\<lambda>(k, s). \<not> (\<exists>(k', s') \<in> set sessions. k' = k \<and> P s')) sessions =
         filter (\<lambda>(k, s). \<not> P s) sessions"
proof (rule filter_cong [OF refl])
  fix x assume x: "x \<in> set sessions"
  obtain k s where ks: "x = (k, s)" by (cases x)
  have uniq: "s' = s" if "(k, s') \<in> set sessions" for s'
    using assms that x unfolding ks by (rule eq_key_imp_eq_value)
  have "(\<exists>(k', s') \<in> set sessions. k' = k \<and> P s') = P s"
  proof
    assume "\<exists>(k', s') \<in> set sessions. k' = k \<and> P s'"
    then obtain s' where "(k, s') \<in> set sessions" and "P s'" by blast
    then show "P s" using uniq by blast
  next
    assume "P s"
    then show "\<exists>(k', s') \<in> set sessions. k' = k \<and> P s'" using x ks by blast
  qed
  then show "(case x of (k, s) \<Rightarrow> \<not> (\<exists>(k', s') \<in> set sessions. k' = k \<and> P s')) =
             (case x of (k, s) \<Rightarrow> \<not> P s)"
    unfolding ks prod.case by (rule arg_cong)
qed

lemma cleanup_loop_filter:
  "cleanup_loop now entries (sessions, files) =
     (filter (\<lambda>(k, s). \<not> (\<exists>(k', s') \<in> set entries. k' = k \<and> now - lastActivity s' > oneHour)) sessions,
      files @ concat (map (\<lambda>(k, s). generatedFiles s)
                 (filter (\<lambda>(k, s). now - lastActivity s > oneHour) entries)))"
proof (induction entries arbitrary: sessions files)
  case Nil show ?case by simp
next
  case (Cons e entries)
  obtain sid session where e: "e = (sid, session)" by (cases e)
  show ?case
  proof (cases "now - lastActivity session > oneHour")
    case True
    have "filter (\<lambda>(k, s). \<not> (\<exists>(k', s') \<in> set entries. k' = k \<and> now - lastActivity s' > oneHour))
            (AList.delete sid sessions) =
          filter (\<lambda>(k, s). \<not> (\<exists>(k', s') \<in> set ((sid, session) # entries). k' = k \<and> now - lastActivity s' > oneHour)) sessions"
      using True unfolding AList.delete_eq filter_filter
      by (intro filter_cong refl) auto
    then show ?thesis using True unfolding e by (simp add: Cons)
  next
    case False
    have "filter (\<lambda>(k, s). \<not> (\<exists>(k', s') \<in> set entries. k' = k \<and> now - lastActivity s' > oneHour)) sessions =
          filter (\<lambda>(k, s). \<not> (\<exists>(k', s') \<in> set ((sid, session) # entries). k' = k \<and> now - lastActivity s' > oneHour)) sessions"
      using False by (intro filter_cong refl) auto
    then show ?thesis using False unfolding e by (simp add: Cons)
  qed
qed

lemma cleanupSessions_filter:
  assumes "distinct (map fst sessions)"
  shows "cleanupSessions (Some maxIdle) now sessions =
           filter (\<lambda>(sid, session). \<not> now - lastActivity session > maxIdle) sessions"
proof -
  have "cleanupSessions (Some maxIdle) now sessions =
          filter (\<lambda>(k, s). \<not> (\<exists>(k', s') \<in> set sessions. k' = k \<and> now - lastActivity s' > maxIdle)) sessions"
    by (simp only: cleanupSessions_def cleanupSessions_loop_filter fst_conv option.case)
  also have "\<dots> = filter (\<lambda>(k, s). \<not> now - lastActivity s > maxIdle) sessions"
    by (rule distinct_keys_filter [OF assms])
  finally show ?thesis .
qed

lemma cleanup_filter:
  assumes "distinct (map fst sessions)"
  shows "cleanup now sessions =
           (filter (\<lambda>(sid, session). \<not> now - lastActivity session > oneHour) sessions,
            concat (map (\<lambda>(sid, session). generatedFiles session)
              (filter (\<lambda>(sid, session). now - lastActivity session > oneHour) sessions)))"
proof -
  have "cleanup now sessions =
          (filter (\<lambda>(k, s). \<not> (\<exists>(k', s') \<in> set sessions. k' = k \<and> now - lastActivity s' > oneHour)) sessions,
           [] @ concat (map (\<lambda>(k, s). generatedFiles s)
                 (filter (\<lambda>(k, s). now - lastActivity s > oneHour) sessions)))"
    by (simp only: cleanup_def cleanup_loop_filter)
  also have "filter (\<lambda>(k, s). \<not> (\<exists>(k', s') \<in> set sessions. k' = k \<and> now - lastActivity s' > oneHour)) sessions
              = filter (\<lambda>(k, s). \<not> now - lastActivity s > oneHour) sessions"
    by (rule distinct_keys_filter [OF assms])
  finally show ?thesis by simp
qed

lemma or_else_cases:
  "or_else sessionId uuid = (case sessionId of None \<Rightarrow> uuid | Some sid \<Rightarrow> if sid = [] then uuid else sid)"
  by (simp add: or_else_def)

lemma map_of_update_same: "map_of (AList.update k v al) k = Some v"
  by (simp add: AList.update_conv')

lemma getSession_absent:
  assumes "falsy sessionId \<or> map_of sessions (or_else sessionId uuid) = None"
  shows "getSession sessionId uuid now sessions =
           (new_LangChainSession sessionId uuid now,
            AList.update (or_else sessionId uuid) (new_LangChainSession sessionId uuid now) sessions)"
proof -
  have "(if falsy sessionId then None else map_of sessions (or_else sessionId uuid)) = None"
    using assms by auto
  then show ?thesis
    by (simp add: getSession_def Let_def new_LangChainSession_def)
qed

lemma getSession_v3_absent:
  assumes "falsy sessionId \<or> map_of sessions (or_else sessionId uuid) = None"
  shows "getSession_v3 sessionId uuid now sessions = createSession sessionId uuid now sessions"
proof -
  have "(if falsy sessionId then None else map_of sessions (or_else sessionId uuid)) = None"
    using assms by auto
  then show ?thesis
    by (simp add: getSession_v3_def)
qed

section \<open>The cursor invariant is kept by the LangChain engine\<close>



lemma addMessage_fields [simp]:
  "state (addMessage ty content now s) = state s"
  "currentField (addMessage ty content now s) = currentField s"
  "formData (addMessage ty content now s) = formData s"
  "verifiedFormStructure (addMessage ty content now s) = verifiedFormStructure s"
  "session_id (addMessage ty content now s) = session_id s"
  "currentForm (addMessage ty content now s) = currentForm s"
  by (simp_all add: addMessage_def)

lemma cursor_invariant_addMessage [simp]:
  "cursor_invariant (addMessage ty content now s) = cursor_invariant s"
  by (simp add: cursor_invariant_def split: form_binding.splits session_state.splits)









section \<open>Steps of the two engines\<close>

lemma updateSession_fields [simp]:
  "state (updateSession u now s) = state (u s)"
  "currentField (updateSession u now s) = currentField (u s)"
  "formData (updateSession u now s) = formData (u s)"
  "session_id (updateSession u now s) = session_id (u s)"
  "currentForm (updateSession u now s) = currentForm (u s)"
  "dynamicFormDetails (updateSession u now s) = dynamicFormDetails (u s)"
  by (simp_all add: updateSession_def)






lemma detectForm_find:
  "detectForm entries input =
     map_option snd (List.find (\<lambda>(keyword, formInfo). str_includes input keyword) entries)"
  by (induction entries) auto

lemma rejection_step:
  assumes "state s = COLLECTING" and "verifiedFormStructure s = Form f"
      and "currentField s < length (verified_fields f)"
      and "type (verified_fields f ! currentField s) \<noteq> ''complex''"
      and "validateFieldInput (verified_fields f ! currentField s) m = Inr v" and "\<not> valid v"
  shows "processUserMessage m s now found checked =
           (Some (validation_error (error v) (question (verified_fields f ! currentField s))),
            addMessage HumanMessage m now s)"
  using assms
  by (simp add: processUserMessage_def field_collection_phase_def Let_def)

lemma email_rejection:
  assumes "type field = ''email''"
  shows "validateFieldInput field ''not-an-email'' =
           Inr \<lparr>valid = False, value = ''not-an-email'',
                error = Some ''Please provide a valid email address (like name@example.com)''\<rparr>"
proof -
  have a: "trim ''not-an-email'' \<noteq> []" by (simp add: trim_def is_space_def)
  have b: "\<not> regex_test emailRegex ''not-an-email''"
    by (simp add: emailRegex_def not_space_at_def is_space_def lit_def)
  show ?thesis using assms a b by (simp add: validateFieldInput_def)
qed

lemma universalFallback_PAN:
  "universalFallback ''I need a PAN card'' s =
     \<lparr>message = ''I can help you with government forms and documents. Could you please specify exactly which form or certificate you need? For example: '' @ [CHR 0x22] @ ''FSSAI food license'' @ [CHR 0x22] @ '', '' @ [CHR 0x22] @ ''GST registration'' @ [CHR 0x22] @ '', '' @ [CHR 0x22] @ ''company registration'' @ [CHR 0x22] @ '', etc.'',
      confidence = 50, intent = ''form_discovery'',
      form_type = Some ''general_government_form'', form_details = None,
      current_question = None, field_being_asked = None\<rparr>"
  by (simp add: universalFallback_def govKeywords_def toLowerCase_def lower_char_def)

lemma detect_PAN:
  "detectForm governmentFormKeywords (toLowerCase ''I need a PAN card'') = Some (''pan_card'', ''PAN Card'')"
  by (simp add: governmentFormKeywords_def toLowerCase_def lower_char_def)

lemma rejection_has_reason:
  assumes "validateFieldInput field m = Inr v" and "\<not> valid v"
  shows "error v \<noteq> None"
proof -
  consider (blank) "\<not> required field \<and> trim m = []"
    | (email) "\<not> (\<not> required field \<and> trim m = [])" "type field = ''email''"
    | (phone) "\<not> (\<not> required field \<and> trim m = [])" "type field \<noteq> ''email''" "type field = ''phone''"
    | (choice) "\<not> (\<not> required field \<and> trim m = [])" "type field \<noteq> ''email''" "type field \<noteq> ''phone''" "type field = ''choice''"
    | (other) "\<not> (\<not> required field \<and> trim m = [])" "type field \<noteq> ''email''" "type field \<noteq> ''phone''" "type field \<noteq> ''choice''"
    by blast
  then show ?thesis
  proof cases
    case blank with assms show ?thesis by (auto simp: validateFieldInput_def)
  next
    case email with assms show ?thesis by (auto simp: validateFieldInput_def)
  next
    case phone with assms show ?thesis by (auto simp: validateFieldInput_def Let_def)
  next
    case choice with assms show ?thesis
      by (auto simp: validateFieldInput_def split: option.splits)
  next
    case other with assms show ?thesis by (auto simp: validateFieldInput_def)
  qed
qed

lemma fallback_binds_nothing:
  "state (snd (processConversation (universalFallback m s') s m now)) = state s \<and>
   currentForm (snd (processConversation (universalFallback m s') s m now)) = currentForm s \<and>
   currentField (snd (processConversation (universalFallback m s') s m now)) = currentField s \<and>
   dynamicFormDetails (snd (processConversation (universalFallback m s') s m now))
     = dynamicFormDetails s"
  by (simp add: processConversation_def universalFallback_def Let_def)

lemma analyze_form_type:
  assumes "state s \<noteq> COLLECTING"
  shows "form_type (analyzeUniversalTextResponse t m s) =
           map_option fst (detectForm governmentFormKeywords (toLowerCase m))"
  using assms
  by (simp add: analyzeUniversalTextResponse_def Let_def split: option.splits prod.splits)


lemma acceptance_step:
  assumes "state s = COLLECTING" and "verifiedFormStructure s = Form f"
      and "currentField s < length (verified_fields f)"
      and "type (verified_fields f ! currentField s) \<noteq> ''complex''"
      and "validateFieldInput (verified_fields f ! currentField s) m = Inr v" and "valid v"
  shows "formData (snd (processUserMessage m s now found checked)) =
           AList.update (name (verified_fields f ! currentField s)) (value v) (formData s) \<and>
         currentField (snd (processUserMessage m s now found checked)) = currentField s + 1"
  using assms
  by (simp add: processUserMessage_def field_collection_phase_def advance_def Let_def)

section \<open>Properties of the field validators\<close>

text \<open>
  C5 (as the code has it). \<^verbatim>\<open>validateField\<close> of server.js accepts the answer to a date
  field exactly when it has the shape two digits, slash, two digits, slash, four digits
  (no calendar check), or when the field is not required and the answer is blank.
  \<^verbatim>\<open>validateFieldInput\<close> of the LangChain engine has no date case: a date field falls to
  its default rule, and the answer is accepted exactly when it is not blank or the field
  is not required.
\<close>

theorem date_validation:
  assumes "type field = ''date''"
  shows "validateField field v = ((\<not> required field \<and> trim v = []) \<or> spec_date_shape v) \<and>
         (\<exists>r. validateFieldInput field v = Inr r \<and>
               valid r = (\<not> required field \<or> trim v \<noteq> []))"
  using assms by (auto simp: validateField_def validateFieldInput_def dateRegex_shape)

text \<open>
  At the required date field of the PAN form of server.js: the 31st of February is
  accepted by \<^verbatim>\<open>validateField\<close>, a date with a one-digit day is not.
\<close>

theorem date_validation_witness:
  "type \<lparr>name = ''dob'', question = ''What is your date of birth? (DD/MM/YYYY)'',
         type = ''date'', options = None, required = True\<rparr> = ''date'' \<and>
   validateField \<lparr>name = ''dob'', question = ''What is your date of birth? (DD/MM/YYYY)'',
                  type = ''date'', options = None, required = True\<rparr> ''31/02/2024'' \<and>
   spec_date_shape ''31/02/2024'' \<and>
   \<not> validateField \<lparr>name = ''dob'', question = ''What is your date of birth? (DD/MM/YYYY)'',
                    type = ''date'', options = None, required = True\<rparr> ''1/02/2024''"
proof -
  let ?f = "\<lparr>name = ''dob'', question = ''What is your date of birth? (DD/MM/YYYY)'',
             type = ''date'', options = None, required = True\<rparr>"
  have h: "type ?f = ''date''" by simp
  have a: "spec_date_shape ''31/02/2024''"
    by (simp add: spec_date_shape_def is_digit_def)
  have b: "\<not> spec_date_shape ''1/02/2024''"
    by (simp add: spec_date_shape_def)
  show ?thesis
    using date_validation [OF h, of "''31/02/2024''"] date_validation [OF h, of "''1/02/2024''"] a b
    by simp
qed

text \<open>
  The claim as written fails twice: a date field that is not required has its blank answer
  accepted by \<^verbatim>\<open>validateField\<close>, and \<^verbatim>\<open>validateFieldInput\<close> accepts any non-blank
  answer to a date field.
\<close>

theorem date_validation_counterexample:
  "validateField \<lparr>name = ''dob'', question = ''What is your date of birth? (DD/MM/YYYY)'',
                  type = ''date'', options = None, required = False\<rparr> '''' \<and>
   \<not> spec_date_shape '''' \<and>
   validateFieldInput \<lparr>name = ''dob'', question = ''What is your date of birth? (DD/MM/YYYY)'',
                       type = ''date'', options = None, required = True\<rparr> ''hello''
     = Inr \<lparr>valid = True, value = ''hello'', error = None\<rparr> \<and>
   \<not> spec_date_shape ''hello''"
  by (simp add: validateField_def validateFieldInput_def spec_date_shape_def trim_def is_space_def)

text \<open>
  C6 (as the code has it). For a phone field \<^verbatim>\<open>validateFieldInput\<close> accepts a blank answer
  as it is when the field is not required; otherwise it strips every non-digit, accepts
  exactly when ten digits remain and the first is 6 to 9, and returns the stripped digits
  as the value. The answer \<^verbatim>\<open>98765-43210\<close> is accepted with value \<^verbatim>\<open>9876543210\<close> whether
  or not the field is required. \<^verbatim>\<open>validateField\<close> of server.js decides the same way.
\<close>

theorem phone_validation:
  assumes "type field = ''phone''"
  shows "validateFieldInput field userInput =
           (if \<not> required field \<and> trim userInput = []
            then Inr \<lparr>valid = True, value = userInput, error = None\<rparr>
            else Inr \<lparr>valid = (length (strip_non_digits userInput) = 10 \<and>
                                hd (strip_non_digits userInput) \<in> set ''6789''),
                      value = strip_non_digits userInput,
                      error = (if length (strip_non_digits userInput) = 10 \<and>
                                  hd (strip_non_digits userInput) \<in> set ''6789''
                               then None
                               else Some ''Please provide a valid 10-digit Indian mobile number'')\<rparr>) \<and>
         validateFieldInput field ''98765-43210''
           = Inr \<lparr>valid = True, value = ''9876543210'', error = None\<rparr> \<and>
         validateField field userInput =
           ((\<not> required field \<and> trim userInput = []) \<or>
            (length (strip_non_digits userInput) = 10 \<and>
             hd (strip_non_digits userInput) \<in> set ''6789''))"
proof -
  have ty: "type field \<noteq> ''email''" using assms by simp
  have ex: "trim ''98765-43210'' \<noteq> []" by (simp add: trim_def is_space_def)
  have st: "strip_non_digits ''98765-43210'' = ''9876543210''"
    by (simp add: strip_non_digits_def is_digit_def)
  have 1: "validateFieldInput field userInput =
           (if \<not> required field \<and> trim userInput = []
            then Inr \<lparr>valid = True, value = userInput, error = None\<rparr>
            else Inr \<lparr>valid = (length (strip_non_digits userInput) = 10 \<and>
                                hd (strip_non_digits userInput) \<in> set ''6789''),
                      value = strip_non_digits userInput,
                      error = (if length (strip_non_digits userInput) = 10 \<and>
                                  hd (strip_non_digits userInput) \<in> set ''6789''
                               then None
                               else Some ''Please provide a valid 10-digit Indian mobile number'')\<rparr>)"
    using assms ty by (simp add: validateFieldInput_def Let_def phoneRegex_digits)
  have 2: "validateFieldInput field ''98765-43210''
             = Inr \<lparr>valid = True, value = ''9876543210'', error = None\<rparr>"
    using assms ty ex phoneRegex_digits [of "''98765-43210''"]
    by (simp add: validateFieldInput_def Let_def st)
  have 3: "validateField field userInput =
           ((\<not> required field \<and> trim userInput = []) \<or>
            (length (strip_non_digits userInput) = 10 \<and>
             hd (strip_non_digits userInput) \<in> set ''6789''))"
    using assms ty by (simp add: validateField_def phoneRegex_digits)
  from 1 2 3 show ?thesis by blast
qed

text \<open>At the mobile number field of the PAN card application.\<close>

theorem phone_validation_witness:
  "type (verified_fields form_pan_card_application ! 4) = ''phone'' \<and>
   validateFieldInput (verified_fields form_pan_card_application ! 4) ''98765-43210''
     = Inr \<lparr>valid = True, value = ''9876543210'', error = None\<rparr> \<and>
   validateFieldInput (verified_fields form_pan_card_application ! 4) ''12345-67890''
     = Inr \<lparr>valid = False, value = ''1234567890'',
            error = Some ''Please provide a valid 10-digit Indian mobile number''\<rparr>"
proof -
  have h: "type (verified_fields form_pan_card_application ! 4) = ''phone''"
    by (simp add: form_pan_card_application_def)
  have r: "required (verified_fields form_pan_card_application ! 4)"
    by (simp add: form_pan_card_application_def)
  have st: "strip_non_digits ''12345-67890'' = ''1234567890''"
    by (simp add: strip_non_digits_def is_digit_def)
  show ?thesis
    using phone_validation [OF h, of "''12345-67890''"] h r st by simp
qed

text \<open>
  The claim as written fails for a phone field that is not required: its blank answer is
  accepted although no digit remains, and the value is the raw answer.
\<close>

theorem phone_validation_counterexample:
  "validateFieldInput \<lparr>name = ''alternate_mobile'', question = ''What is your other mobile number?'',
                       type = ''phone'', options = None, required = False\<rparr> '' ''
     = Inr \<lparr>valid = True, value = '' '', error = None\<rparr> \<and>
   strip_non_digits '' '' = []"
  by (simp add: validateFieldInput_def trim_def is_space_def strip_non_digits_def is_digit_def)

text \<open>
  C7. Whatever the field, an answer that \<^verbatim>\<open>validateFieldInput\<close> accepts yields a value that
  is accepted again, with the same result object and so the same value.
\<close>

theorem revalidation:
  assumes "validateFieldInput field userInput = Inr r" and "valid r"
  shows "validateFieldInput field (value r) = Inr r"
proof -
  consider (blank) "\<not> required field \<and> trim userInput = []"
    | (email) "\<not> (\<not> required field \<and> trim userInput = [])" "type field = ''email''"
    | (phone) "\<not> (\<not> required field \<and> trim userInput = [])" "type field \<noteq> ''email''" "type field = ''phone''"
    | (choice) "\<not> (\<not> required field \<and> trim userInput = [])" "type field \<noteq> ''email''" "type field \<noteq> ''phone''" "type field = ''choice''"
    | (other) "\<not> (\<not> required field \<and> trim userInput = [])" "type field \<noteq> ''email''" "type field \<noteq> ''phone''" "type field \<noteq> ''choice''"
    by blast
  then show ?thesis
  proof cases
    case blank
    with assms show ?thesis by (auto simp: validateFieldInput_def)
  next
    case email
    with assms show ?thesis by (auto simp: validateFieldInput_def)
  next
    case phone
    with assms have r: "r = \<lparr>valid = True, value = strip_non_digits userInput, error = None\<rparr>"
      and ok: "regex_test phoneRegex (strip_non_digits userInput)"
      by (auto simp: validateFieldInput_def Let_def)
    show ?thesis using phone ok unfolding r
      by (simp add: validateFieldInput_def Let_def strip_idem)
  next
    case choice
    with assms show ?thesis
      by (auto simp: validateFieldInput_def split: option.splits)
  next
    case other
    with assms have r: "r = \<lparr>valid = True, value = trim userInput, error = None\<rparr>"
      and ok: "trim userInput \<noteq> []"
      by (auto simp: validateFieldInput_def)
    show ?thesis using other ok unfolding r
      by (simp add: validateFieldInput_def trim_idem)
  qed
qed

theorem revalidation_witness:
  "validateFieldInput (verified_fields form_pan_card_application ! 4) ''98765-43210''
     = Inr \<lparr>valid = True, value = ''9876543210'', error = None\<rparr> \<and>
   valid \<lparr>valid = True, value = ''9876543210'', error = None\<rparr> \<and>
   validateFieldInput (verified_fields form_pan_card_application ! 4) ''9876543210''
     = Inr \<lparr>valid = True, value = ''9876543210'', error = None\<rparr>"
proof -
  have a: "validateFieldInput (verified_fields form_pan_card_application ! 4) ''98765-43210''
             = Inr \<lparr>valid = True, value = ''9876543210'', error = None\<rparr>"
    by (simp add: form_pan_card_application_def validateFieldInput_def trim_def is_space_def
          strip_non_digits_def is_digit_def phoneRegex_def eval_nat_numeral)
  have b: "valid \<lparr>valid = True, value = ''9876543210'', error = None\<rparr>" by simp
  show ?thesis using revalidation [OF a b] a by simp
qed

text \<open>
  C10. A choice field with a non-empty option list, required or not, has its empty answer
  accepted with the empty string as value: every option contains the empty string. When
  the engine is collecting such a field, the empty message is stored as its answer and the
  cursor moves on.
\<close>

theorem empty_choice_accepted:
  assumes "type field = ''choice''" and "options field = Some opts" and "opts \<noteq> []"
  shows "validateFieldInput field [] = Inr \<lparr>valid = True, value = [], error = None\<rparr> \<and>
         (state s = COLLECTING \<and> verifiedFormStructure s = Form f \<and>
          currentField s < length (verified_fields f) \<and>
          verified_fields f ! currentField s = field \<longrightarrow>
            map_of (formData (snd (processUserMessage [] s now found checked))) (name field)
              = Some [] \<and>
            currentField (snd (processUserMessage [] s now found checked)) = currentField s + 1)"
proof -
  have v: "validateFieldInput field [] = Inr \<lparr>valid = True, value = [], error = None\<rparr>"
    using assms by (simp add: validateFieldInput_def validChoice_empty)
  have "map_of (formData (snd (processUserMessage [] s now found checked))) (name field)
              = Some [] \<and>
        currentField (snd (processUserMessage [] s now found checked)) = currentField s + 1"
    if h: "state s = COLLECTING \<and> verifiedFormStructure s = Form f \<and>
          currentField s < length (verified_fields f) \<and>
          verified_fields f ! currentField s = field"
  proof -
    have ty: "type (verified_fields f ! currentField s) \<noteq> ''complex''"
      using h assms(1) by simp
    have v': "validateFieldInput (verified_fields f ! currentField s) []
                = Inr \<lparr>valid = True, value = [], error = None\<rparr>"
      using h v by simp
    have ok: "valid \<lparr>valid = True, value = [], error = None\<rparr>" by simp
    from acceptance_step [OF _ _ _ ty v' ok, of now found checked] h
    show ?thesis by (simp add: map_of_update_same)
  qed
  with v show ?thesis by blast
qed

text \<open>
  At the first field of the PAN card application, a required choice: the empty answer is
  stored and the second field is asked.
\<close>

theorem empty_choice_accepted_witness:
  "type (verified_fields form_pan_card_application ! 0) = ''choice'' \<and>
   required (verified_fields form_pan_card_application ! 0) \<and>
   options (verified_fields form_pan_card_application ! 0)
     = Some [''Individual'', ''HUF'', ''Company'', ''Firm'', ''Trust'', ''Association of Persons''] \<and>
   validateFieldInput (verified_fields form_pan_card_application ! 0) []
     = Inr \<lparr>valid = True, value = [], error = None\<rparr> \<and>
   map_of (formData (snd (processUserMessage []
       ((new_LangChainSession None ''u'' 0)
          \<lparr>state := COLLECTING, currentForm := Some ''pan_card_application'',
           verifiedFormStructure := Form form_pan_card_application\<rparr>) 3 None None)))
     ''applicant_category'' = Some [] \<and>
   currentField (snd (processUserMessage []
       ((new_LangChainSession None ''u'' 0)
          \<lparr>state := COLLECTING, currentForm := Some ''pan_card_application'',
           verifiedFormStructure := Form form_pan_card_application\<rparr>) 3 None None)) = 1"
proof -
  let ?s = "(new_LangChainSession None ''u'' 0)
          \<lparr>state := COLLECTING, currentForm := Some ''pan_card_application'',
           verifiedFormStructure := Form form_pan_card_application\<rparr>"
  let ?fld = "verified_fields form_pan_card_application ! 0"
  have t: "type ?fld = ''choice''"
    by (simp add: form_pan_card_application_def)
  have r: "required ?fld"
    by (simp add: form_pan_card_application_def)
  have n: "name ?fld = ''applicant_category''"
    by (simp add: form_pan_card_application_def)
  have opt: "options ?fld
     = Some [''Individual'', ''HUF'', ''Company'', ''Firm'', ''Trust'', ''Association of Persons'']"
    by (simp add: form_pan_card_application_def)
  have ne: "[''Individual'', ''HUF'', ''Company'', ''Firm'', ''Trust'', ''Association of Persons'']
              \<noteq> ([] :: string list)" by simp
  have c0: "currentField ?s = 0" by (simp add: new_LangChainSession_def)
  have h: "state ?s = COLLECTING \<and> verifiedFormStructure ?s = Form form_pan_card_application \<and>
           currentField ?s < length (verified_fields form_pan_card_application) \<and>
           verified_fields form_pan_card_application ! currentField ?s = ?fld"
    unfolding c0 by (simp add: form_pan_card_application_def)
  note e = empty_choice_accepted [OF t opt ne, where s = ?s and f = form_pan_card_application
      and now = 3 and found = None and checked = None]
  have e1: "validateFieldInput ?fld [] = Inr \<lparr>valid = True, value = [], error = None\<rparr>"
    using e by blast
  have e2: "map_of (formData (snd (processUserMessage [] ?s 3 None None))) ''applicant_category''
              = Some [] \<and>
            currentField (snd (processUserMessage [] ?s 3 None None)) = 1"
    using e h unfolding n c0 by simp
  from t r opt e1 e2 show ?thesis by blast
qed

section \<open>Properties of the session stores: creation and expiry\<close>

text \<open>
  C9. On a store with one entry for each id (as a \<^verbatim>\<open>Map\<close> has), \<^verbatim>\<open>cleanupSessions(maxIdle)\<close>
  removes the sessions whose idle time \<open>now - lastActivity\<close> is greater than \<open>maxIdle\<close> and
  keeps every other session as it is, in order; a session idle for exactly \<open>maxIdle\<close> is
  kept. \<^verbatim>\<open>cleanup\<close> of server.js does the same with one hour, and collects the generated
  files of the sessions it removes.
\<close>

theorem sweep_exact:
  assumes "distinct (map fst sessions)" and "distinct (map fst sessions3)"
  shows "cleanupSessions (Some maxIdle) now sessions =
           filter (\<lambda>(sid, session). \<not> now - lastActivity session > maxIdle) sessions \<and>
         (\<forall>sid session. (sid, session) \<in> set sessions \<and> now - lastActivity session = maxIdle
             \<longrightarrow> (sid, session) \<in> set (cleanupSessions (Some maxIdle) now sessions)) \<and>
         fst (cleanup now sessions3) =
           filter (\<lambda>(sid, session). \<not> now - lastActivity session > oneHour) sessions3 \<and>
         snd (cleanup now sessions3) =
           concat (map (\<lambda>(sid, session). generatedFiles session)
             (filter (\<lambda>(sid, session). now - lastActivity session > oneHour) sessions3))"
proof -
  note 1 = cleanupSessions_filter [OF assms(1), of maxIdle now]
  note 3 = cleanup_filter [OF assms(2), of now]
  have 2: "\<forall>sid session. (sid, session) \<in> set sessions \<and> now - lastActivity session = maxIdle
             \<longrightarrow> (sid, session) \<in> set (cleanupSessions (Some maxIdle) now sessions)"
    unfolding 1 by simp
  have 4: "fst (cleanup now sessions3) =
           filter (\<lambda>(sid, session). \<not> now - lastActivity session > oneHour) sessions3"
    unfolding 3 by (rule fst_conv)
  have 5: "snd (cleanup now sessions3) =
           concat (map (\<lambda>(sid, session). generatedFiles session)
             (filter (\<lambda>(sid, session). now - lastActivity session > oneHour) sessions3))"
    unfolding 3 by (rule snd_conv)
  from 1 2 4 5 show ?thesis by blast
qed

text \<open>
  Two sessions, swept at time 3600010 with a limit of one hour: \<open>a\<close>, last active at 10, is
  idle for exactly the limit and stays; \<open>b\<close>, last active at 9, is removed.
\<close>

theorem sweep_exact_witness:
  "distinct (map fst [(''a'', new_LangChainSession (Some ''a'') ''u'' 10),
                      (''b'', new_LangChainSession (Some ''b'') ''u'' 9)]) \<and>
   distinct (map fst [(''a'', fst (createSession (Some ''a'') ''u'' 10 [])),
                      (''b'', (fst (createSession (Some ''b'') ''u'' 9 []))
                                \<lparr>generatedFiles := [''b.pdf'']\<rparr>)]) \<and>
   cleanupSessions (Some 3600000) 3600010
       [(''a'', new_LangChainSession (Some ''a'') ''u'' 10),
        (''b'', new_LangChainSession (Some ''b'') ''u'' 9)]
     = [(''a'', new_LangChainSession (Some ''a'') ''u'' 10)] \<and>
   fst (cleanup 3600010
       [(''a'', fst (createSession (Some ''a'') ''u'' 10 [])),
        (''b'', (fst (createSession (Some ''b'') ''u'' 9 []))\<lparr>generatedFiles := [''b.pdf'']\<rparr>)])
     = [(''a'', fst (createSession (Some ''a'') ''u'' 10 []))] \<and>
   snd (cleanup 3600010
       [(''a'', fst (createSession (Some ''a'') ''u'' 10 [])),
        (''b'', (fst (createSession (Some ''b'') ''u'' 9 []))\<lparr>generatedFiles := [''b.pdf'']\<rparr>)])
     = [''b.pdf'']"
proof -
  let ?S = "[(''a'', new_LangChainSession (Some ''a'') ''u'' 10),
             (''b'', new_LangChainSession (Some ''b'') ''u'' 9)]"
  let ?S3 = "[(''a'', fst (createSession (Some ''a'') ''u'' 10 [])),
              (''b'', (fst (createSession (Some ''b'') ''u'' 9 []))\<lparr>generatedFiles := [''b.pdf'']\<rparr>)]"
  have d: "distinct (map fst ?S)" by simp
  have d3: "distinct (map fst ?S3)" by simp
  show ?thesis
    using sweep_exact [OF d d3, of 3600000 3600010] d d3
    by (simp add: new_LangChainSession_def createSession_def Let_def oneHour_def)
qed

text \<open>
  C3 (as the code has it). \<^verbatim>\<open>getSession\<close>, in services/sessionService.js and in server.js,
  is a total function: it raises for no argument. With an absent or empty id it creates a
  session in state \<open>INIT\<close> under the identifier \<^verbatim>\<open>uuidv4()\<close> generates; with a non-empty
  id that the store does not hold it creates the session under that caller-supplied id.
  The new session has cursor 0 and no answers and is stored under its identifier.
\<close>

theorem getSession_creates:
  assumes "falsy sessionId \<or> map_of sessions (or_else sessionId uuid) = None"
      and "falsy sessionId \<or> map_of sessions3 (or_else sessionId uuid) = None"
  shows "(case getSession sessionId uuid now sessions of
            (session, sessions') \<Rightarrow>
              state session = INIT \<and> currentField session = 0 \<and> formData session = [] \<and>
              session_id session =
                (case sessionId of None \<Rightarrow> uuid | Some sid \<Rightarrow> if sid = [] then uuid else sid) \<and>
              sessions' = AList.update (session_id session) session sessions \<and>
              map_of sessions' (session_id session) = Some session) \<and>
         (case getSession_v3 sessionId uuid now sessions3 of
            (session, sessions') \<Rightarrow>
              state session = INIT \<and> currentField session = 0 \<and> formData session = [] \<and>
              session_id session =
                (case sessionId of None \<Rightarrow> uuid | Some sid \<Rightarrow> if sid = [] then uuid else sid) \<and>
              sessions' = AList.update (session_id session) session sessions3 \<and>
              map_of sessions' (session_id session) = Some session)"
proof -
  have a: "case getSession sessionId uuid now sessions of
            (session, sessions') \<Rightarrow>
              state session = INIT \<and> currentField session = 0 \<and> formData session = [] \<and>
              session_id session =
                (case sessionId of None \<Rightarrow> uuid | Some sid \<Rightarrow> if sid = [] then uuid else sid) \<and>
              sessions' = AList.update (session_id session) session sessions \<and>
              map_of sessions' (session_id session) = Some session"
    unfolding getSession_absent [OF assms(1)]
    by (simp add: new_LangChainSession_def map_of_update_same or_else_cases)
  have b: "case getSession_v3 sessionId uuid now sessions3 of
            (session, sessions') \<Rightarrow>
              state session = INIT \<and> currentField session = 0 \<and> formData session = [] \<and>
              session_id session =
                (case sessionId of None \<Rightarrow> uuid | Some sid \<Rightarrow> if sid = [] then uuid else sid) \<and>
              sessions' = AList.update (session_id session) session sessions3 \<and>
              map_of sessions' (session_id session) = Some session"
    unfolding getSession_v3_absent [OF assms(2)]
    by (simp add: createSession_def Let_def map_of_update_same or_else_cases)
  from a b show ?thesis by (rule conjI)
qed

theorem getSession_creates_witness:
  "(falsy None \<or> map_of ([] :: (string \<times> LangChainSession) list) (or_else None ''uuid-1'') = None) \<and>
   session_id (fst (getSession None ''uuid-1'' 7 [])) = ''uuid-1'' \<and>
   state (fst (getSession None ''uuid-1'' 7 [])) = INIT \<and>
   map_of (snd (getSession None ''uuid-1'' 7 [])) ''uuid-1''
     = Some (fst (getSession None ''uuid-1'' 7 [])) \<and>
   session_id (fst (getSession_v3 None ''uuid-1'' 7 [])) = ''uuid-1'' \<and>
   state (fst (getSession_v3 None ''uuid-1'' 7 [])) = INIT \<and>
   map_of (snd (getSession_v3 None ''uuid-1'' 7 [])) ''uuid-1''
     = Some (fst (getSession_v3 None ''uuid-1'' 7 []))"
proof -
  have h: "falsy None \<or> map_of ([] :: (string \<times> LangChainSession) list) (or_else None ''uuid-1'') = None"
    by (simp add: falsy_def)
  have h3: "falsy None \<or> map_of ([] :: (string \<times> session) list) (or_else None ''uuid-1'') = None"
    by (simp add: falsy_def)
  show ?thesis
    using getSession_creates [OF h h3, of 7] h
    by (simp add: case_prod_beta)
qed

text \<open>
  The claim as written fails for an unknown id: the session is created and stored under the
  caller's id, not under the generated one.
\<close>

theorem getSession_creates_counterexample:
  "session_id (fst (getSession (Some ''abc'') ''generated-uuid'' 0 [])) = ''abc'' \<and>
   map_of (snd (getSession (Some ''abc'') ''generated-uuid'' 0 [])) ''generated-uuid'' = None \<and>
   session_id (fst (getSession_v3 (Some ''abc'') ''generated-uuid'' 0 [])) = ''abc'' \<and>
   map_of (snd (getSession_v3 (Some ''abc'') ''generated-uuid'' 0 [])) ''generated-uuid'' = None"
  by (simp add: getSession_def getSession_v3_def createSession_def new_LangChainSession_def
        falsy_def or_else_def Let_def)

section \<open>Properties of the session state machines\<close>







text \<open>
  C4 (as the code has it). When the engine is collecting the field at the cursor, the field
  is not of the type sent to the language model, and \<^verbatim>\<open>validateFieldInput\<close> rejects the
  answer, \<^verbatim>\<open>processUserMessage\<close> answers with the validation error intent, carrying the
  validator's reason and the question of the same field; cursor, answers and state are
  unchanged (the user's message is logged). The reason for an email field given
  \<^verbatim>\<open>not-an-email\<close> is the text \<^verbatim>\<open>Please provide a valid email address (like name@example.com)\<close>.
\<close>

theorem rejection_reported:
  assumes "state s = COLLECTING" and "verifiedFormStructure s = Form f"
      and "currentField s < length (verified_fields f)"
      and "type (verified_fields f ! currentField s) \<noteq> ''complex''"
      and "validateFieldInput (verified_fields f ! currentField s) m = Inr v" and "\<not> valid v"
  shows "processUserMessage m s now found checked =
           (Some (validation_error (error v) (question (verified_fields f ! currentField s))),
            addMessage HumanMessage m now s) \<and>
         error v \<noteq> None \<and>
         state (snd (processUserMessage m s now found checked)) = COLLECTING \<and>
         currentField (snd (processUserMessage m s now found checked)) = currentField s \<and>
         formData (snd (processUserMessage m s now found checked)) = formData s \<and>
         (type field = ''email'' \<longrightarrow>
            validateFieldInput field ''not-an-email'' =
              Inr \<lparr>valid = False, value = ''not-an-email'',
                   error = Some ''Please provide a valid email address (like name@example.com)''\<rparr>)"
proof -
  note 1 = rejection_step [OF assms, of now found checked]
  note 2 = rejection_has_reason [OF assms(5) assms(6)]
  have 3: "state (snd (processUserMessage m s now found checked)) = COLLECTING \<and>
         currentField (snd (processUserMessage m s now found checked)) = currentField s \<and>
         formData (snd (processUserMessage m s now found checked)) = formData s"
    unfolding 1 using assms(1) by simp
  have 4: "type field = ''email'' \<longrightarrow>
            validateFieldInput field ''not-an-email'' =
              Inr \<lparr>valid = False, value = ''not-an-email'',
                   error = Some ''Please provide a valid email address (like name@example.com)''\<rparr>"
    using email_rejection [of field] by blast
  from 1 2 3 4 show ?thesis by blast
qed

text \<open>At the email field of the PAN card application, the sixth of its nine fields.\<close>

theorem rejection_reported_witness:
  "state ((new_LangChainSession None ''u'' 0)
       \<lparr>state := COLLECTING, currentForm := Some ''pan_card_application'', currentField := 5,
        verifiedFormStructure := Form form_pan_card_application\<rparr>) = COLLECTING \<and>
   type (verified_fields form_pan_card_application ! 5) = ''email'' \<and>
   fst (processUserMessage ''not-an-email''
       ((new_LangChainSession None ''u'' 0)
          \<lparr>state := COLLECTING, currentForm := Some ''pan_card_application'', currentField := 5,
           verifiedFormStructure := Form form_pan_card_application\<rparr>) 7 None None)
     = Some (validation_error
         (Some ''Please provide a valid email address (like name@example.com)'')
         ''What is your email address?'') \<and>
   currentField (snd (processUserMessage ''not-an-email''
       ((new_LangChainSession None ''u'' 0)
          \<lparr>state := COLLECTING, currentForm := Some ''pan_card_application'', currentField := 5,
           verifiedFormStructure := Form form_pan_card_application\<rparr>) 7 None None)) = 5"
proof -
  let ?s = "(new_LangChainSession None ''u'' 0)
       \<lparr>state := COLLECTING, currentForm := Some ''pan_card_application'', currentField := 5,
        verifiedFormStructure := Form form_pan_card_application\<rparr>"
  let ?v = "\<lparr>valid = False, value = ''not-an-email'',
             error = Some ''Please provide a valid email address (like name@example.com)''\<rparr>"
  have a: "state ?s = COLLECTING" by simp
  have b: "verifiedFormStructure ?s = Form form_pan_card_application" by simp
  have c5: "currentField ?s = 5" by simp
  have c: "currentField ?s < length (verified_fields form_pan_card_application)"
    by (simp add: form_pan_card_application_def)
  have fld: "verified_fields form_pan_card_application ! currentField ?s =
           \<lparr>name = ''email_address'', question = ''What is your email address?'',
            type = ''email'', options = None, required = True\<rparr>"
    unfolding c5 by (simp add: form_pan_card_application_def)
  have ty: "type (verified_fields form_pan_card_application ! currentField ?s) \<noteq> ''complex''"
    unfolding fld by simp
  have e: "validateFieldInput (verified_fields form_pan_card_application ! currentField ?s)
             ''not-an-email'' = Inr ?v"
    unfolding fld by (rule email_rejection) simp
  have nv: "\<not> valid ?v" by simp
  have ty5: "type (verified_fields form_pan_card_application ! 5) = ''email''"
    using fld unfolding c5 by simp
  have q5: "question (verified_fields form_pan_card_application ! 5) = ''What is your email address?''"
    using fld unfolding c5 by simp
  note t = rejection_reported [OF a b c ty e nv, of 7 None None]
  have t1: "fst (processUserMessage ''not-an-email'' ?s 7 None None)
     = Some (validation_error
         (Some ''Please provide a valid email address (like name@example.com)'')
         ''What is your email address?'')"
    using t q5 unfolding c5 by simp
  have t2: "currentField (snd (processUserMessage ''not-an-email'' ?s 7 None None)) = 5"
    using t c5 by simp
  from a ty5 t1 t2 show ?thesis by blast
qed

text \<open>
  The claim as written names a reason that the code does not produce: its text for a
  rejected email address is another.
\<close>

theorem rejection_reported_counterexample:
  "validateFieldInput (verified_fields form_pan_card_application ! 5) ''not-an-email''
     = Inr \<lparr>valid = False, value = ''not-an-email'',
            error = Some ''Please provide a valid email address (like name@example.com)''\<rparr> \<and>
   ''Please provide a valid email address (like name@example.com)'' \<noteq> ''not a valid email address''"
  by code_simp

section \<open>Properties of the resolver's fallbacks\<close>

text \<open>
  C2 (as the code has it). When every model call fails, \<^verbatim>\<open>callClaudeAI\<close> returns the
  result of \<^verbatim>\<open>universalFallback\<close>, which depends on the utterance alone: if the
  lower-cased utterance contains one of the seven generic terms it is a form discovery of
  the type \<^verbatim>\<open>general_government_form\<close> without form details, otherwise a request for
  clarification; in both cases \<^verbatim>\<open>processConversation\<close> binds no form. So it is for
  \<^verbatim>\<open>I need a PAN card\<close>. Keywords are matched to forms by
  \<^verbatim>\<open>analyzeUniversalTextResponse\<close>, which \<^verbatim>\<open>callClaudeAI\<close> uses when the model's reply is
  not JSON: for a session that is not collecting, the form type is that of the first
  keyword of its table, in table order, that the lower-cased utterance contains; for
  \<^verbatim>\<open>I need a PAN card\<close> it is \<^verbatim>\<open>pan_card\<close>.
\<close>

theorem fallback_resolution:
  "callClaudeAI m s ModelsFailed = universalFallback m s \<and>
   universalFallback m s = universalFallback m s' \<and>
   form_details (universalFallback m s) = None \<and>
   intent (universalFallback m s) =
     (if list_ex (\<lambda>keyword. str_includes (toLowerCase m) keyword) govKeywords
      then ''form_discovery'' else ''clarification_needed'') \<and>
   form_type (universalFallback m s) =
     (if list_ex (\<lambda>keyword. str_includes (toLowerCase m) keyword) govKeywords
      then Some ''general_government_form'' else None) \<and>
   intent (universalFallback ''I need a PAN card'' s) = ''form_discovery'' \<and>
   form_type (universalFallback ''I need a PAN card'' s) = Some ''general_government_form'' \<and>
   state (snd (chat_endpoint m ModelsFailed now s)) = state s \<and>
   currentForm (snd (chat_endpoint m ModelsFailed now s)) = currentForm s \<and>
   dynamicFormDetails (snd (chat_endpoint m ModelsFailed now s)) = dynamicFormDetails s \<and>
   callClaudeAI m s (Unparseable t) = analyzeUniversalTextResponse t m s \<and>
   (state s \<noteq> COLLECTING \<longrightarrow>
      form_type (analyzeUniversalTextResponse t m s) =
        map_option (fst \<circ> snd)
          (List.find (\<lambda>(keyword, formInfo). str_includes (toLowerCase m) keyword)
             governmentFormKeywords) \<and>
      form_type (analyzeUniversalTextResponse t ''I need a PAN card'' s) = Some ''pan_card'')"
proof -
  have 1: "callClaudeAI m s ModelsFailed = universalFallback m s"
    by (simp add: callClaudeAI_def)
  have 2: "universalFallback m s = universalFallback m s'"
    by (simp add: universalFallback_def)
  have 3: "form_details (universalFallback m s) = None"
    by (simp add: universalFallback_def Let_def)
  have i: "intent (universalFallback m s) =
     (if list_ex (\<lambda>keyword. str_includes (toLowerCase m) keyword) govKeywords
      then ''form_discovery'' else ''clarification_needed'')"
    by (simp add: universalFallback_def Let_def)
  have 4: "form_type (universalFallback m s) =
     (if list_ex (\<lambda>keyword. str_includes (toLowerCase m) keyword) govKeywords
      then Some ''general_government_form'' else None)"
    by (simp add: universalFallback_def Let_def)
  have 5: "intent (universalFallback ''I need a PAN card'' s) = ''form_discovery'' \<and>
           form_type (universalFallback ''I need a PAN card'' s) = Some ''general_government_form''"
    unfolding universalFallback_PAN by simp
  have 6: "state (snd (chat_endpoint m ModelsFailed now s)) = state s \<and>
   currentForm (snd (chat_endpoint m ModelsFailed now s)) = currentForm s \<and>
   dynamicFormDetails (snd (chat_endpoint m ModelsFailed now s)) = dynamicFormDetails s"
    using fallback_binds_nothing [of m "s\<lparr>lastActivity := now\<rparr>" "s\<lparr>lastActivity := now\<rparr>" now]
    by (simp add: chat_endpoint_def Let_def callClaudeAI_def)
  have 7: "callClaudeAI m s (Unparseable t) = analyzeUniversalTextResponse t m s"
    by (simp add: callClaudeAI_def)
  have 8: "state s \<noteq> COLLECTING \<longrightarrow>
      form_type (analyzeUniversalTextResponse t m s) =
        map_option (fst \<circ> snd)
          (List.find (\<lambda>(keyword, formInfo). str_includes (toLowerCase m) keyword)
             governmentFormKeywords) \<and>
      form_type (analyzeUniversalTextResponse t ''I need a PAN card'' s) = Some ''pan_card''"
  proof
    assume st: "state s \<noteq> COLLECTING"
    have a: "form_type (analyzeUniversalTextResponse t m s) =
        map_option (fst \<circ> snd)
          (List.find (\<lambda>(keyword, formInfo). str_includes (toLowerCase m) keyword)
             governmentFormKeywords)"
      unfolding analyze_form_type [OF st] detectForm_find
      by (simp add: option.map_comp)
    have b: "form_type (analyzeUniversalTextResponse t ''I need a PAN card'' s) = Some ''pan_card''"
      unfolding analyze_form_type [OF st] detect_PAN by simp
    from a b show "form_type (analyzeUniversalTextResponse t m s) =
        map_option (fst \<circ> snd)
          (List.find (\<lambda>(keyword, formInfo). str_includes (toLowerCase m) keyword)
             governmentFormKeywords) \<and>
      form_type (analyzeUniversalTextResponse t ''I need a PAN card'' s) = Some ''pan_card''"
      by (rule conjI)
  qed
  from 1 2 3 i 4 5 6 7 8 show ?thesis by blast
qed

text \<open>
  On a newly created session, which is not collecting; an utterance with none of the
  generic terms is answered with a request for clarification.
\<close>

theorem fallback_resolution_witness:
  "state (fst (createSession None ''u'' 0 [])) \<noteq> COLLECTING \<and>
   form_type (analyzeUniversalTextResponse ''Sure.'' ''I need a PAN card''
                (fst (createSession None ''u'' 0 []))) = Some ''pan_card'' \<and>
   form_type (callClaudeAI ''I need a PAN card'' (fst (createSession None ''u'' 0 [])) ModelsFailed)
     = Some ''general_government_form'' \<and>
   currentForm (snd (chat_endpoint ''I need a PAN card'' ModelsFailed 1
                       (fst (createSession None ''u'' 0 [])))) = None \<and>
   intent (universalFallback ''I need a PAN card'' (fst (createSession None ''u'' 0 [])))
     = ''form_discovery'' \<and>
   intent (universalFallback ''Good morning'' (fst (createSession None ''u'' 0 [])))
     = ''clarification_needed''"
proof -
  let ?s = "fst (createSession None ''u'' 0 [])"
  have a: "state ?s \<noteq> COLLECTING" by (simp add: createSession_def Let_def)
  have b: "currentForm ?s = None" by (simp add: createSession_def Let_def)
  note t = fallback_resolution [where s = ?s and m = "''I need a PAN card''" and t = "''Sure.''"
      and now = 1]
  have t1: "form_type (analyzeUniversalTextResponse ''Sure.'' ''I need a PAN card'' ?s)
              = Some ''pan_card''"
    using t a by blast
  have t2: "form_type (callClaudeAI ''I need a PAN card'' ?s ModelsFailed)
              = Some ''general_government_form''"
    using t by metis
  have t3: "currentForm (snd (chat_endpoint ''I need a PAN card'' ModelsFailed 1 ?s)) = None"
    using t b by metis
  have k2: "\<not> list_ex (\<lambda>keyword. str_includes (toLowerCase ''Good morning'') keyword) govKeywords"
    by code_simp
  have t4: "intent (universalFallback ''I need a PAN card'' ?s) = ''form_discovery''"
    using t by blast
  have t5: "intent (universalFallback ''Good morning'' ?s) = ''clarification_needed''"
    using fallback_resolution [where s = ?s and m = "''Good morning''"] k2 by simp
  from a t1 t2 t3 t4 t5 show ?thesis by blast
qed

text \<open>
  The claim as written fails: with the advisory failing, the utterance \<^verbatim>\<open>I need a PAN card\<close>
  is answered with the general form type and no form details, and no form is bound.
\<close>

theorem fallback_resolution_counterexample:
  "form_type (callClaudeAI ''I need a PAN card'' (fst (createSession None ''u'' 0 [])) ModelsFailed)
     = Some ''general_government_form'' \<and>
   form_details (callClaudeAI ''I need a PAN card'' (fst (createSession None ''u'' 0 [])) ModelsFailed)
     = None \<and>
   state (snd (chat_endpoint ''I need a PAN card'' ModelsFailed 1
                 (fst (createSession None ''u'' 0 [])))) = INIT \<and>
   currentForm (snd (chat_endpoint ''I need a PAN card'' ModelsFailed 1
                       (fst (createSession None ''u'' 0 [])))) = None"
  by code_simp


end
